theory Spec2Isabelle
  imports Complex_Main "HOL-Library.AList"
begin

section \<open>Discovery broker (apps/game-server/src/moq-broker-party.ts)\<close>

text \<open>
  The broker keeps a JavaScript \<open>Map<string, MoQParticipant>\<close>. A JavaScript Map iterates
  in insertion order and \<open>set\<close> on a key that is already present keeps the key's place, so
  the registry is an association list written with \<open>AList.update\<close> (replace in place, or
  append) and \<open>AList.delete\<close>. \<open>Date.now()\<close> is a parameter \<open>now\<close> of the handler
  (milliseconds, an integer); the two reads inside \<open>handleJoin\<close> are one clock reading.
  Every \<open>connection.send\<close> is recorded in an outbox: pairs of the connection's id and the
  message sent to it, in the order of the sends. The field \<open>id\<close> of a participant and of
  a connection is \<open>participant_id\<close> and \<open>connection_id\<close> here, and the broker's own
  \<open>participants\<close> Map is \<open>registry\<close>, since the update message has a field
  \<open>participants\<close> too; \<open>connections\<close> is what \<open>room.getConnections()\<close> returns.
\<close>

record MoQParticipant =
  participant_id :: string
  playerName :: string
  moqPath :: string
  joinedAt :: int
  lastSeen :: int

record ConnectionState =
  participantId :: "string option"

record Connection =
  connection_id :: string
  state :: ConnectionState

datatype BrokerMessage =
    Join string string string
  | Leave string
  | Heartbeat string
  | RequestPeers string

record BrokerUpdate =
  participants :: "MoQParticipant list"
  totalConnections :: nat
  activeCount :: nat

record MoQBrokerParty =
  registry :: "(string \<times> MoQParticipant) list"
  connections :: "Connection list"

type_synonym outbox = "(string \<times> BrokerUpdate) list"

definition makeUpdate :: "MoQBrokerParty \<Rightarrow> BrokerUpdate" where
  "makeUpdate b =
     \<lparr> participants = map snd (registry b),
       totalConnections = length (connections b),
       activeCount = length (registry b) \<rparr>"

definition sendBrokerUpdate :: "MoQBrokerParty \<Rightarrow> Connection \<Rightarrow> outbox" where
  "sendBrokerUpdate b connection = [(connection_id connection, makeUpdate b)]"

definition broadcastUpdate :: "MoQBrokerParty \<Rightarrow> outbox" where
  "broadcastUpdate b = map (\<lambda>c. (connection_id c, makeUpdate b)) (connections b)"

definition setState :: "string \<Rightarrow> ConnectionState \<Rightarrow> Connection list \<Rightarrow> Connection list" where
  "setState cid s cs = map (\<lambda>c. if connection_id c = cid then c\<lparr>state := s\<rparr> else c) cs"

definition handleJoin ::
  "string \<Rightarrow> string \<Rightarrow> string \<Rightarrow> Connection \<Rightarrow> int \<Rightarrow> MoQBrokerParty \<Rightarrow> MoQBrokerParty \<times> outbox"
where
  "handleJoin mid mname mpath connection now b =
     (let participant = \<lparr> participant_id = mid, playerName = mname, moqPath = mpath,
                           joinedAt = now, lastSeen = now \<rparr>;
          b1 = b\<lparr>registry := AList.update mid participant (registry b)\<rparr>;
          b2 = b1\<lparr>connections :=
                    setState (connection_id connection) \<lparr>participantId = Some mid\<rparr> (connections b1)\<rparr>
      in (b2, broadcastUpdate b2))"

definition handleLeave :: "string \<Rightarrow> MoQBrokerParty \<Rightarrow> MoQBrokerParty \<times> outbox" where
  "handleLeave pid b =
     (case map_of (registry b) pid of
        Some participant \<Rightarrow>
          (let b1 = b\<lparr>registry := AList.delete pid (registry b)\<rparr> in (b1, broadcastUpdate b1))
      | None \<Rightarrow> (b, []))"

definition handleHeartbeat :: "string \<Rightarrow> int \<Rightarrow> MoQBrokerParty \<Rightarrow> MoQBrokerParty" where
  "handleHeartbeat pid now b =
     (case map_of (registry b) pid of
        Some participant \<Rightarrow> b\<lparr>registry := AList.update pid (participant\<lparr>lastSeen := now\<rparr>) (registry b)\<rparr>
      | None \<Rightarrow> b)"

text \<open>
  \<open>onMessage\<close> receives a string; \<open>None\<close> stands for a string that \<open>JSON.parse\<close> rejects
  or whose type is none of the four: both paths only log.
\<close>

definition onMessage ::
  "BrokerMessage option \<Rightarrow> Connection \<Rightarrow> int \<Rightarrow> MoQBrokerParty \<Rightarrow> MoQBrokerParty \<times> outbox"
where
  "onMessage message sender now b =
     (case message of
        Some (Join mid mname mpath) \<Rightarrow> handleJoin mid mname mpath sender now b
      | Some (Leave pid) \<Rightarrow> handleLeave pid b
      | Some (Heartbeat pid) \<Rightarrow> (handleHeartbeat pid now b, [])
      | Some (RequestPeers pid) \<Rightarrow> (b, sendBrokerUpdate b sender)
      | None \<Rightarrow> (b, []))"

definition onConnect :: "Connection \<Rightarrow> MoQBrokerParty \<Rightarrow> MoQBrokerParty \<times> outbox" where
  "onConnect connection b = (b, sendBrokerUpdate b connection)"

text \<open>
  \<open>if (state?.participantId)\<close> tests for a truthy value: the empty string does not pass.
\<close>

definition onClose :: "Connection \<Rightarrow> MoQBrokerParty \<Rightarrow> MoQBrokerParty \<times> outbox" where
  "onClose connection b =
     (case participantId (state connection) of
        Some pid \<Rightarrow> (if pid = [] then (b, []) else handleLeave pid b)
      | None \<Rightarrow> (b, []))"

text \<open>The ids listed in each view that an outbox holds for one connection.\<close>

definition viewsSentTo :: "string \<Rightarrow> outbox \<Rightarrow> string list list" where
  "viewsSentTo cid out =
     map (\<lambda>m. map participant_id (participants (snd m))) (filter (\<lambda>m. fst m = cid) out)"

definition conn1 :: Connection where
  "conn1 = \<lparr> connection_id = ''c1'', state = \<lparr>participantId = None\<rparr> \<rparr>"

definition broker0 :: MoQBrokerParty where
  "broker0 = \<lparr> registry = [], connections = [conn1] \<rparr>"

definition broker1 :: MoQBrokerParty where
  "broker1 = fst (handleJoin ''p1'' ''Ann'' ''game/r/p1'' conn1 1000 broker0)"

section \<open>Presence samples (game-schemas, as the client uses them)\<close>

text \<open>
  JavaScript numbers are taken as real numbers: the claims below compare timestamps and
  positions, and none of them is about rounding. A presence object that reaches the
  client can be partial (the delta sync sends partial samples), so each field of
  \<open>PresenceType\<close> is optional; a missing field reads as \<open>undefined\<close>.
\<close>

datatype Vector3 = Vector3 (vx: real) (vy: real) (vz: real)

datatype Vector2 = Vector2 (wx: real) (wy: real)

datatype Quaternion = Quaternion (qx: real) (qy: real) (qz: real) (qw: real)

record PresenceType =
  name :: "string option"
  pos :: "Vector3 option"
  rot :: "Quaternion option"
  wheel :: "Vector2 option"
  vel :: "Vector3 option"
  timestamp :: "real option"

text \<open>The methods of THREE.Vector3 that the frame callback calls.\<close>

definition multiplyScalar :: "Vector3 \<Rightarrow> real \<Rightarrow> Vector3" where
  "multiplyScalar v s = Vector3 (vx v * s) (vy v * s) (vz v * s)"

definition add :: "Vector3 \<Rightarrow> Vector3 \<Rightarrow> Vector3" where
  "add a b = Vector3 (vx a + vx b) (vy a + vy b) (vz a + vz b)"

definition lerp :: "Vector3 \<Rightarrow> Vector3 \<Rightarrow> real \<Rightarrow> Vector3" where
  "lerp a v alpha =
     Vector3 (vx a + (vx v - vx a) * alpha) (vy a + (vy v - vy a) * alpha) (vz a + (vz v - vz a) * alpha)"

section \<open>Peer session manager (apps/game-front/src/hooks/useMoQGameStream.ts)\<close>

text \<open>
  The refs of the hook are the fields of \<open>StreamState\<close>. \<open>remoteBroadcastsRef\<close> is the
  Map from participant id to its Watch.Broadcast (kept here as the path it watches);
  \<open>timers\<close> holds the callbacks that \<open>setTimeout\<close> has scheduled and that have not run yet:
  the delay in milliseconds, the participant and the \<open>retryCount\<close> the callback will pass.
  No handle of a timer is kept by the source, so the model has no operation that removes
  one other than its firing. \<open>awaiting\<close> holds the calls of \<open>createWatchBroadcast\<close> that
  have constructed their Watch.Broadcast and are suspended in the 100 ms wait that follows
  the construction: the participant and the \<open>retryCount\<close> of the call. The broadcast of
  such a call is in no Map yet. All these waits are equally long, so they end in the
  order in which they began. \<open>console\<close> is the sequence of log lines and other effects
  (the callbacks of the caller, the Watch.Broadcast constructions, the \<open>setTimeout\<close> calls
  that schedule a retry with their delay, the closing of a broadcast).
\<close>

datatype Effect =
    CallbackJoin string
  | CallbackLeave string
  | WatchAttempt string nat
  | LogCreated string
  | WarnSkipSelf string
  | ErrorFailedCreate string
  | SetTimeout int
  | LogRetrying string nat
  | ErrorAfter3Attempts string
  | BroadcastClosed string
  | ErrorParseState

record Options =
  roomId :: string
  playerId :: string

record StreamState =
  moqConnectionRef :: bool
  isMoQReady :: bool
  participantsRef :: "MoQParticipant list"
  prevParticipantsRef :: "string list"
  remoteBroadcastsRef :: "(string \<times> string) list"
  remoteStatesRef :: "(string \<times> PresenceType) list"
  timers :: "(int \<times> MoQParticipant \<times> nat) list"
  awaiting :: "(MoQParticipant \<times> nat) list"
  console :: "Effect list"

text \<open>
  What one run of the \<open>try\<close> block does is not decided by the hook. Before the wait,
  \<open>Moq.Path.from\<close> can throw ahead of the self-path check, the Watch.Broadcast constructor
  can throw after it, or nothing throws (\<open>Succeeds\<close>) and the call reaches the wait. After
  the wait, the subscription to the chat track can throw, or the call runs to its end.
\<close>

datatype Outcome = Succeeds | ThrowsAtPath | ThrowsAtBroadcast

datatype Resumption = Subscribes | ThrowsAtSubscribe

definition ourPath :: "Options \<Rightarrow> string" where
  "ourPath opts = ''game/'' @ roomId opts @ ''/'' @ playerId opts"

definition retryDelay :: "nat \<Rightarrow> int" where
  "retryDelay retryCount = 1000 * (int retryCount + 1)"

definition catchBlock :: "MoQParticipant \<Rightarrow> nat \<Rightarrow> StreamState \<Rightarrow> StreamState" where
  "catchBlock participant retryCount st =
     (let st1 = st\<lparr>console := console st @ [ErrorFailedCreate (playerName participant)]\<rparr>
      in if retryCount < 3
         then st1\<lparr>timers := timers st1 @ [(retryDelay retryCount, participant, retryCount + 1)],
                 console := console st1 @ [SetTimeout (retryDelay retryCount)]\<rparr>
         else st1\<lparr>console := console st1 @ [ErrorAfter3Attempts (playerName participant)]\<rparr>)"

text \<open>
  The part of \<open>createWatchBroadcast\<close> that runs at once, up to the \<open>await\<close>: the two
  guards, the path, the self-path check and the construction of the Watch.Broadcast.
\<close>

definition createWatchBroadcast ::
  "Options \<Rightarrow> MoQParticipant \<Rightarrow> nat \<Rightarrow> Outcome \<Rightarrow> StreamState \<Rightarrow> StreamState"
where
  "createWatchBroadcast opts participant retryCount outcome st =
     (if \<not> moqConnectionRef st then st
      else if participant_id participant = playerId opts then st
      else if outcome = ThrowsAtPath then catchBlock participant retryCount st
      else if moqPath participant = ourPath opts
        then st\<lparr>console := console st @ [WarnSkipSelf (playerName participant)]\<rparr>
      else
        (let st1 = st\<lparr>console := console st @ [WatchAttempt (participant_id participant) retryCount]\<rparr>
         in if outcome = ThrowsAtBroadcast then catchBlock participant retryCount st1
            else st1\<lparr>awaiting := awaiting st1 @ [(participant, retryCount)]\<rparr>))"

text \<open>
  The rest of the call, when its wait of 100 ms is over: the subscription to the chat
  track, the entry in the Map unless the id has one, and the log line. An exception here
  is caught by the same \<open>catch\<close> block. Nothing is tested again after the wait: neither the
  connection nor whether the participant is still listed.
\<close>

definition resumeWatchBroadcast :: "Resumption \<Rightarrow> StreamState \<Rightarrow> StreamState" where
  "resumeWatchBroadcast resumption st =
     (case awaiting st of
        [] \<Rightarrow> st
      | (participant, retryCount) # rest \<Rightarrow>
          (let st1 = st\<lparr>awaiting := rest\<rparr>
           in if resumption = ThrowsAtSubscribe then catchBlock participant retryCount st1
              else st1\<lparr>remoteBroadcastsRef :=
                          (if map_of (remoteBroadcastsRef st1) (participant_id participant) = None
                           then remoteBroadcastsRef st1 @ [(participant_id participant, moqPath participant)]
                           else remoteBroadcastsRef st1),
                       console := console st1 @ [LogCreated (playerName participant)]\<rparr>))"

text \<open>
  The callback that the subscription registers for the chat messages of a participant:
  no data is ignored, data that does not parse is logged, a game state is stored.
\<close>

datatype ChatData = NoData | Unparsable | GameState PresenceType

definition chatMessage :: "string \<Rightarrow> ChatData \<Rightarrow> StreamState \<Rightarrow> StreamState" where
  "chatMessage pid data st =
     (case data of
        NoData \<Rightarrow> st
      | Unparsable \<Rightarrow> st\<lparr>console := console st @ [ErrorParseState]\<rparr>
      | GameState gameState \<Rightarrow>
          st\<lparr>remoteStatesRef := AList.update pid gameState (remoteStatesRef st)\<rparr>)"

definition cleanupWatchBroadcast :: "string \<Rightarrow> StreamState \<Rightarrow> StreamState" where
  "cleanupWatchBroadcast pid st =
     (case map_of (remoteBroadcastsRef st) pid of
        Some broadcast \<Rightarrow>
          st\<lparr>remoteBroadcastsRef := AList.delete pid (remoteBroadcastsRef st),
             remoteStatesRef := AList.delete pid (remoteStatesRef st),
             console := console st @ [BroadcastClosed pid]\<rparr>
      | None \<Rightarrow> st)"

text \<open>The oldest pending timer fires: its callback logs the retry and calls again.\<close>

definition fireTimer :: "Options \<Rightarrow> Outcome \<Rightarrow> StreamState \<Rightarrow> StreamState" where
  "fireTimer opts outcome st =
     (case timers st of
        [] \<Rightarrow> st
      | (delay, participant, retryCount) # rest \<Rightarrow>
          createWatchBroadcast opts participant retryCount outcome
            (st\<lparr>timers := rest,
                console := console st @ [LogRetrying (playerName participant) retryCount]\<rparr>))"

text \<open>The delays of the \<open>setTimeout\<close> calls in a console, and the retries it logs.\<close>

definition delaysOf :: "Effect list \<Rightarrow> int list" where
  "delaysOf es = concat (map (\<lambda>e. case e of SetTimeout d \<Rightarrow> [d] | _ \<Rightarrow> []) es)"

definition retriesOf :: "Effect list \<Rightarrow> nat list" where
  "retriesOf es = concat (map (\<lambda>e. case e of LogRetrying n k \<Rightarrow> [k] | _ \<Rightarrow> []) es)"

definition timersMeasure :: "StreamState \<Rightarrow> nat" where
  "timersMeasure st = sum_list (map (\<lambda>t. 5 - snd (snd t)) (timers st)) + length (timers st)"

text \<open>
  \<open>new Set(list)\<close> keeps the first occurrence of each element, in order.
\<close>

definition newSet :: "string list \<Rightarrow> string list" where
  "newSet xs = rev (remdups (rev xs))"

definition joinLoop ::
  "Options \<Rightarrow> (string \<Rightarrow> Outcome) \<Rightarrow> string list \<Rightarrow> MoQParticipant list \<Rightarrow> StreamState \<Rightarrow> StreamState"
where
  "joinLoop opts oc prev ps st =
     fold (\<lambda>participant s.
             if participant_id participant \<in> set prev then s
             else (let s1 = s\<lparr>console := console s @ [CallbackJoin (participant_id participant)]\<rparr>
                   in if moqConnectionRef s1 \<and> isMoQReady s1
                      then createWatchBroadcast opts participant 0 (oc (participant_id participant)) s1
                      else s1))
          ps st"

definition leaveLoop :: "string list \<Rightarrow> string list \<Rightarrow> StreamState \<Rightarrow> StreamState" where
  "leaveLoop currentIds prev st =
     fold (\<lambda>prevId s.
             if prevId \<in> set currentIds then s
             else cleanupWatchBroadcast prevId (s\<lparr>console := console s @ [CallbackLeave prevId]\<rparr>))
          prev st"

text \<open>
  The handler of the broker socket. The event is \<open>None\<close> when its data does not parse or
  is not a \<open>broker_update\<close>: nothing changes then. \<open>oc\<close> gives the outcome of the attempt
  to watch a participant, by its id.
\<close>

definition stream_onMessage ::
  "Options \<Rightarrow> (string \<Rightarrow> Outcome) \<Rightarrow> BrokerUpdate option \<Rightarrow> StreamState \<Rightarrow> StreamState"
where
  "stream_onMessage opts oc event st =
     (case event of
        None \<Rightarrow> st
      | Some data \<Rightarrow>
          (let otherParticipants = filter (\<lambda>p. participant_id p \<noteq> playerId opts) (participants data);
               st1 = st\<lparr>participantsRef := otherParticipants\<rparr>;
               currentIds = newSet (map participant_id otherParticipants);
               prev = prevParticipantsRef st1;
               st2 = joinLoop opts oc prev otherParticipants st1;
               st3 = leaveLoop currentIds prev st2
           in st3\<lparr>prevParticipantsRef := currentIds\<rparr>))"

text \<open>
  Running the pending retry callbacks until none is left; \<open>oc\<close> gives the outcome of the
  attempt that is made with a given \<open>retryCount\<close>. Each firing removes one timer and adds
  at most one with a larger \<open>retryCount\<close>, and none once \<open>retryCount\<close> has reached 3. A
  call that reaches its wait stays in \<open>awaiting\<close>.
\<close>

lemma timers_catchBlock:
  "timers (catchBlock participant retryCount st) =
     (if retryCount < 3 then timers st @ [(retryDelay retryCount, participant, retryCount + 1)]
      else timers st)"
  by (simp add: catchBlock_def Let_def)

lemma timers_createWatchBroadcast:
  "timers (createWatchBroadcast opts participant retryCount outcome st) = timers st \<or>
   (retryCount < 3 \<and>
    timers (createWatchBroadcast opts participant retryCount outcome st) =
      timers st @ [(retryDelay retryCount, participant, retryCount + 1)])"
  by (simp add: createWatchBroadcast_def timers_catchBlock Let_def)

lemma timersMeasure_fireTimer:
  assumes "timers st \<noteq> []"
  shows "timersMeasure (fireTimer opts outcome st) < timersMeasure st"
proof -
  obtain delay participant retryCount rest
    where ts: "timers st = (delay, participant, retryCount) # rest"
    using assms by (cases "timers st") auto
  define st1 where
    "st1 = st\<lparr>timers := rest,
               console := console st @ [LogRetrying (playerName participant) retryCount]\<rparr>"
  have fire: "fireTimer opts outcome st = createWatchBroadcast opts participant retryCount outcome st1"
    by (simp add: fireTimer_def ts st1_def)
  have rest: "timers st1 = rest"
    by (simp add: st1_def)
  from timers_createWatchBroadcast [of opts participant retryCount outcome st1]
  show ?thesis
  proof
    assume "timers (createWatchBroadcast opts participant retryCount outcome st1) = timers st1"
    then show ?thesis
      by (simp add: fire rest ts timersMeasure_def)
  next
    assume "retryCount < 3 \<and>
      timers (createWatchBroadcast opts participant retryCount outcome st1) =
        timers st1 @ [(retryDelay retryCount, participant, retryCount + 1)]"
    then have lt: "retryCount < 3"
      and eq: "timers (createWatchBroadcast opts participant retryCount outcome st1) =
        rest @ [(retryDelay retryCount, participant, retryCount + 1)]"
      by (simp_all add: rest)
    have "timersMeasure (fireTimer opts outcome st) =
        sum_list (map (\<lambda>t. 5 - snd (snd t)) rest) + (5 - (retryCount + 1)) + (length rest + 1)"
      by (simp add: fire eq timersMeasure_def)
    moreover have "timersMeasure st =
        (5 - retryCount) + sum_list (map (\<lambda>t. 5 - snd (snd t)) rest) + (length rest + 1)"
      by (simp add: ts timersMeasure_def)
    ultimately show ?thesis
      using lt by arith
  qed
qed

function drainTimers :: "Options \<Rightarrow> (nat \<Rightarrow> Outcome) \<Rightarrow> StreamState \<Rightarrow> StreamState" where
  "drainTimers opts oc st =
     (case timers st of
        [] \<Rightarrow> st
      | t # rest \<Rightarrow> drainTimers opts oc (fireTimer opts (oc (snd (snd t))) st))"
  by pat_completeness auto
termination
  by (relation "measure (\<lambda>(opts, oc, st). timersMeasure st)")
     (simp_all add: timersMeasure_fireTimer)

declare drainTimers.simps [simp del]

section \<open>Presence reconciler (the OtherPlayers component)\<close>

record CarVectors =
  originTimestamp :: "real option"
  positionCurrent :: Vector3
  velocity :: Vector3
  deltaVelocity :: Vector3
  wheelRotation :: real
  visibleSteering :: real

record Group =
  position :: Vector3
  quaternion :: Quaternion

record OtherPlayer =
  carVectors :: CarVectors
  playerRef :: "Group option"

datatype error = TypeError

text \<open>
  The \<open>if\<close> at the head of the frame callback. \<open>!==\<close> on two numbers, or on a number and
  \<open>undefined\<close>, is inequality of the optional values. Copying from a missing vector
  throws a TypeError.
\<close>

definition capture :: "PresenceType \<Rightarrow> CarVectors \<Rightarrow> error + CarVectors" where
  "capture presence cv =
     (if originTimestamp cv \<noteq> timestamp presence
      then (case vel presence of
              None \<Rightarrow> Inl TypeError
            | Some v \<Rightarrow>
                (case pos presence of
                   None \<Rightarrow> Inl TypeError
                 | Some p \<Rightarrow>
                     Inr (cv\<lparr>velocity := v, positionCurrent := p,
                             originTimestamp := timestamp presence\<rparr>)))
      else Inr cv)"

definition useFrame :: "real \<Rightarrow> PresenceType option \<Rightarrow> OtherPlayer \<Rightarrow> error + OtherPlayer" where
  "useFrame delta slot s =
     (case slot of
        None \<Rightarrow> Inr s
      | Some presence \<Rightarrow>
          (case playerRef s of
             None \<Rightarrow> Inr s
           | Some g \<Rightarrow>
               (case capture presence (carVectors s) of
                  Inl e \<Rightarrow> Inl e
                | Inr cv1 \<Rightarrow>
                    (let dv = multiplyScalar (velocity cv1) delta;
                         cv2 = cv1\<lparr>deltaVelocity := dv,
                                   positionCurrent := add (positionCurrent cv1) dv\<rparr>;
                         g1 = g\<lparr>position := lerp (position g) (positionCurrent cv2) (min (delta * 10) 1)\<rparr>
                     in (case rot presence of
                           None \<Rightarrow> Inl TypeError
                         | Some q \<Rightarrow>
                             (case wheel presence of
                                None \<Rightarrow> Inl TypeError
                              | Some w \<Rightarrow>
                                  Inr \<lparr> carVectors = cv2\<lparr>wheelRotation := wx w, visibleSteering := wy w\<rparr>,
                                        playerRef = Some (g1\<lparr>quaternion := q\<rparr>) \<rparr>))))))"

text \<open>
  A freshly mounted player: \<open>useMemo\<close> gives \<open>originTimestamp\<close> 0 and zero vectors, and a
  new THREE.Group sits at the origin with the identity rotation.
\<close>

definition zero3 :: Vector3 where
  "zero3 = Vector3 0 0 0"

definition newOtherPlayer :: OtherPlayer where
  "newOtherPlayer =
     \<lparr> carVectors = \<lparr> originTimestamp = Some 0, positionCurrent = zero3, velocity = zero3,
                      deltaVelocity = zero3, wheelRotation = 0, visibleSteering = 0 \<rparr>,
       playerRef = Some \<lparr> position = zero3, quaternion = Quaternion 0 0 0 1 \<rparr> \<rparr>"

text \<open>
  \<open>{...currentP, ...presence}\<close>: a field of the second object wins wherever it is present.
\<close>

definition spread :: "'a option \<Rightarrow> 'a option \<Rightarrow> 'a option" where
  "spread old new = (case new of Some v \<Rightarrow> Some v | None \<Rightarrow> old)"

definition emptyPresence :: PresenceType where
  "emptyPresence = \<lparr> name = None, pos = None, rot = None, wheel = None, vel = None, timestamp = None \<rparr>"

definition mergePresence :: "PresenceType \<Rightarrow> PresenceType \<Rightarrow> PresenceType" where
  "mergePresence currentP presence =
     \<lparr> name = spread (name currentP) (name presence),
       pos = spread (pos currentP) (pos presence),
       rot = spread (rot currentP) (rot presence),
       wheel = spread (wheel currentP) (wheel presence),
       vel = spread (vel currentP) (vel presence),
       timestamp = spread (timestamp currentP) (timestamp presence) \<rparr>"

text \<open>
  What happens to one remote player over time: a whole presence object is stored for it
  (\<open>player-added\<close>, \<open>pull-server-presence\<close>, the copy from the stream's remote states), a
  partial one is merged into the stored one (\<open>sync-presence\<close>), or a frame is rendered.
  The trajectory is the position of the player's group after each frame; it ends at a
  frame whose callback throws.
\<close>

datatype Event = Replace PresenceType | Delta PresenceType | Frame real

fun deliver :: "Event \<Rightarrow> PresenceType option \<Rightarrow> PresenceType option" where
  "deliver (Replace presence) slot = Some presence"
| "deliver (Delta presence) slot =
     Some (mergePresence (case slot of None \<Rightarrow> emptyPresence | Some currentP \<Rightarrow> currentP) presence)"
| "deliver (Frame delta) slot = slot"

fun trajectory :: "Event list \<Rightarrow> PresenceType option \<Rightarrow> OtherPlayer \<Rightarrow> Vector3 list" where
  "trajectory [] slot s = []"
| "trajectory (Frame delta # es) slot s =
     (case useFrame delta slot s of
        Inl e \<Rightarrow> []
      | Inr s' \<Rightarrow>
          (case playerRef s' of
             None \<Rightarrow> trajectory es slot s'
           | Some g \<Rightarrow> position g # trajectory es slot s'))"
| "trajectory (e # es) slot s = trajectory es (deliver e slot) s"

section \<open>The client's presence store (messageHandler of OtherPlayers)\<close>

text \<open>
  \<open>presenceRef.current\<close> is an object used as a dictionary from player id to presence;
  the \<open>users\<close> payload of a message is an object too, read through \<open>Object.entries\<close>: a
  list of pairs whose keys are distinct.
\<close>

datatype ServerMessage =
    PullServerPresence "(string \<times> PresenceType) list"
  | SyncPresence "(string \<times> PresenceType) list"
  | PlayerAdded string PresenceType
  | PlayerRemoved string

record PresenceStore =
  playerIds :: "string list"
  presenceRef :: "string \<rightharpoonup> PresenceType"

definition storeAll ::
  "(string \<times> PresenceType) list \<Rightarrow> (string \<rightharpoonup> PresenceType) \<Rightarrow> (string \<rightharpoonup> PresenceType)"
where
  "storeAll users m = fold (\<lambda>entry acc. acc(fst entry \<mapsto> snd entry)) users m"

definition mergeAll ::
  "(string \<times> PresenceType) list \<Rightarrow> (string \<rightharpoonup> PresenceType) \<Rightarrow> (string \<rightharpoonup> PresenceType)"
where
  "mergeAll users m =
     fold (\<lambda>entry acc.
             acc(fst entry \<mapsto>
                 mergePresence (case acc (fst entry) of None \<Rightarrow> emptyPresence | Some currentP \<Rightarrow> currentP)
                               (snd entry)))
          users m"

definition messageHandler :: "string \<Rightarrow> ServerMessage \<Rightarrow> PresenceStore \<Rightarrow> PresenceStore" where
  "messageHandler selfId message st =
     (case message of
        PullServerPresence users \<Rightarrow>
          (let allUsers = AList.delete selfId users
           in st\<lparr>playerIds := map fst allUsers,
                 presenceRef := storeAll allUsers (presenceRef st)\<rparr>)
      | SyncPresence users \<Rightarrow>
          (let usersToUpdate = AList.delete selfId users
           in st\<lparr>presenceRef := mergeAll usersToUpdate (presenceRef st)\<rparr>)
      | PlayerAdded pid presence \<Rightarrow>
          (if pid = selfId then st
           else st\<lparr>playerIds := (if pid \<in> set (playerIds st) then playerIds st
                                   else playerIds st @ [pid]),
                   presenceRef := (presenceRef st)(pid \<mapsto> presence)\<rparr>)
      | PlayerRemoved pid \<Rightarrow>
          st\<lparr>playerIds := filter (\<lambda>i. i \<noteq> pid) (playerIds st),
             presenceRef := (presenceRef st)(pid := None)\<rparr>)"

text \<open>
  The render of OtherPlayers maps every id to an OtherPlayer element keyed by the id, or
  to \<open>null\<close>. \<open>MAX_VEHICLE_INSTANCES\<close> is imported from the vehicle body module, which is
  not among the sources: it is a parameter, a JavaScript number taken as an integer.
\<close>

definition renderOtherPlayers :: "int \<Rightarrow> string list \<Rightarrow> string option list" where
  "renderOtherPlayers MAX_VEHICLE_INSTANCES ids =
     map (\<lambda>entry. if int (fst entry) < MAX_VEHICLE_INSTANCES - 3 then Some (snd entry) else None)
         (enumerate 0 ids)"

definition mounted :: "string option list \<Rightarrow> string list" where
  "mounted elements = concat (map (\<lambda>e. case e of None \<Rightarrow> [] | Some pid \<Rightarrow> [pid]) elements)"

section \<open>Resilient channel (the Connection class of the hang library)\<close>

text \<open>
  Modelled from the spec: the Connection class (\<open>@kixelated/hang/connection\<close>) is not
  among the sources; only its documentation is. The record holds the configuration
  (\<open>reload\<close>, \<open>delay\<close>, \<open>maxDelay\<close>), the \<open>status\<close> signal and the private current delay
  \<open>#delay\<close>, which the spec calls \<open>currentBackoffMs\<close>.
\<close>

datatype ConnectionStatus = Unsupported | Disconnected | Connecting | Connected

record ResilientChannel =
  reload :: bool
  delay :: real
  maxDelay :: real
  status :: ConnectionStatus
  currentBackoffMs :: real
  scheduled :: "real list"

text \<open>
  Modelled from the spec: a new channel with the documented defaults (\<open>reload\<close> true,
  \<open>delay\<close> 1000, \<open>maxDelay\<close> 30000) unless given; the current delay starts at \<open>delay\<close>.
\<close>

definition newChannel :: "bool \<Rightarrow> real \<Rightarrow> real \<Rightarrow> ResilientChannel" where
  "newChannel r d m =
     \<lparr> reload = r, delay = d, maxDelay = m, status = Disconnected, currentBackoffMs = d,
       scheduled = [] \<rparr>"

definition defaultChannel :: ResilientChannel where
  "defaultChannel = newChannel True 1000 30000"

text \<open>
  Modelled from the spec: \<open>disconnected -> connecting\<close> when the endpoint is set or the
  retry timer fires.
\<close>

definition startConnecting :: "ResilientChannel \<Rightarrow> ResilientChannel" where
  "startConnecting c = (if status c = Unsupported then c else c\<lparr>status := Connecting\<rparr>)"

text \<open>
  Modelled from the spec: \<open>connecting -> connected\<close> on success resets the backoff to its
  initial value.
\<close>

definition connectSuccess :: "ResilientChannel \<Rightarrow> ResilientChannel" where
  "connectSuccess c = c\<lparr>status := Connected, currentBackoffMs := delay c\<rparr>"

text \<open>
  Modelled from the spec: on a transport error or close the channel is disconnected,
  schedules a retry after the current delay and then doubles the delay up to the ceiling
  (\<open>Math.min(#delay * 2, maxDelay)\<close> in the documentation); the retry is scheduled when
  \<open>reload\<close> is enabled.
\<close>

definition connectFailure :: "ResilientChannel \<Rightarrow> ResilientChannel" where
  "connectFailure c =
     c\<lparr>status := Disconnected,
       scheduled := (if reload c then scheduled c @ [currentBackoffMs c] else scheduled c),
       currentBackoffMs := min (currentBackoffMs c * 2) (maxDelay c)\<rparr>"

text \<open>
  Modelled from the spec: \<open>n\<close> consecutive failures, each retry attempt failing again.
\<close>

fun failures :: "nat \<Rightarrow> ResilientChannel \<Rightarrow> ResilientChannel" where
  "failures 0 c = c"
| "failures (Suc n) c = connectFailure (startConnecting (failures n c))"

section \<open>Concrete inputs\<close>

definition opts1 :: Options where
  "opts1 = \<lparr> roomId = ''r'', playerId = ''p1'' \<rparr>"

definition peer2 :: MoQParticipant where
  "peer2 = \<lparr> participant_id = ''p2'', playerName = ''Bob'', moqPath = ''game/r/p2'',
             joinedAt = 1000, lastSeen = 1000 \<rparr>"

definition stream0 :: StreamState where
  "stream0 =
     \<lparr> moqConnectionRef = True, isMoQReady = True, participantsRef = [], prevParticipantsRef = [],
       remoteBroadcastsRef = [], remoteStatesRef = [], timers = [], awaiting = [], console = [] \<rparr>"

definition updateWith :: "MoQParticipant list \<Rightarrow> BrokerUpdate" where
  "updateWith ps = \<lparr> participants = ps, totalConnections = 1, activeCount = length ps \<rparr>"

text \<open>
  A scenario: the broker announces \<open>peer2\<close> and the first attempt to watch it throws, so
  that a retry is pending; then the broker announces that \<open>peer2\<close> has gone.
\<close>

definition afterJoinFailed :: StreamState where
  "afterJoinFailed = stream_onMessage opts1 (\<lambda>i. ThrowsAtBroadcast) (Some (updateWith [peer2])) stream0"

definition afterRemoval :: StreamState where
  "afterRemoval = stream_onMessage opts1 (\<lambda>i. ThrowsAtBroadcast) (Some (updateWith [])) afterJoinFailed"

definition sampleB :: "real \<Rightarrow> PresenceType" where
  "sampleB ts =
     \<lparr> name = Some ''Bob'', pos = Some (Vector3 0 0 0), rot = Some (Quaternion 0 0 0 1),
       wheel = Some (Vector2 0 0), vel = Some (Vector3 1 0 0), timestamp = Some ts \<rparr>"

definition olderSample :: PresenceType where
  "olderSample =
     \<lparr> name = Some ''Bob'', pos = Some (Vector3 9 0 0), rot = Some (Quaternion 0 0 0 1),
       wheel = Some (Vector2 0 0), vel = Some (Vector3 0 0 2), timestamp = Some 50 \<rparr>"

definition entry100 :: OtherPlayer where
  "entry100 =
     \<lparr> carVectors = \<lparr> originTimestamp = Some 100, positionCurrent = Vector3 5 0 0,
                      velocity = Vector3 1 0 0, deltaVelocity = zero3, wheelRotation = 0,
                      visibleSteering = 0 \<rparr>,
       playerRef = Some \<lparr> position = Vector3 5 0 0, quaternion = Quaternion 0 0 0 1 \<rparr> \<rparr>"

text \<open>The waypoint of a frame's result: position, velocity and origin timestamp.\<close>

definition waypoint :: "error + OtherPlayer \<Rightarrow> (Vector3 \<times> Vector3 \<times> real option) option" where
  "waypoint r =
     (case r of
        Inl e \<Rightarrow> None
      | Inr s \<Rightarrow> Some (positionCurrent (carVectors s), velocity (carVectors s),
                       originTimestamp (carVectors s)))"

definition store0 :: PresenceStore where
  "store0 = \<lparr> playerIds = [], presenceRef = Map.empty \<rparr>"

definition posOnly :: PresenceType where
  "posOnly = emptyPresence\<lparr>pos := Some (Vector3 7 0 0)\<rparr>"

definition store2 :: PresenceStore where
  "store2 = \<lparr> playerIds = [''p2''], presenceRef = [''p2'' \<mapsto> sampleB 100] \<rparr>"

text \<open>
  Two more: \<open>peer2\<close> is announced and watched, its wait ends, and a game state arrives from
  it; and \<open>peer2\<close> is announced and its call is still in its wait.
\<close>

definition afterJoinWaiting :: StreamState where
  "afterJoinWaiting = stream_onMessage opts1 (\<lambda>i. Succeeds) (Some (updateWith [peer2])) stream0"

definition afterJoinOpened :: StreamState where
  "afterJoinOpened =
     chatMessage ''p2'' (GameState (sampleB 100)) (resumeWatchBroadcast Subscribes afterJoinWaiting)"

section \<open>Theorems: the discovery broker\<close>

text \<open>
  C1, as the claim states it, fails. Every view the broker sends is the whole registry:
  after \<open>p1\<close> has joined on connection \<open>c1\<close>, the broadcast that follows the join, the
  reply to \<open>request_peers\<close> and the snapshot on connect all list \<open>p1\<close> to \<open>c1\<close>.
\<close>

theorem broker_view_includes_requester:
  "viewsSentTo ''c1'' (snd (onMessage (Some (Join ''p1'' ''Ann'' ''game/r/p1'')) conn1 1000 broker0)) = [[''p1'']]
   \<and> viewsSentTo ''c1'' (snd (onMessage (Some (RequestPeers ''p1'')) conn1 2000 broker1)) = [[''p1'']]
   \<and> viewsSentTo ''c1'' (snd (onConnect conn1 broker1)) = [[''p1'']]"
  by (simp add: viewsSentTo_def onMessage_def onConnect_def handleJoin_def broadcastUpdate_def
      sendBrokerUpdate_def makeUpdate_def setState_def conn1_def broker0_def broker1_def Let_def)

lemma participantsRef_catchBlock [simp]:
  "participantsRef (catchBlock p rc st) = participantsRef st"
  by (simp add: catchBlock_def Let_def)

lemma participantsRef_createWatchBroadcast [simp]:
  "participantsRef (createWatchBroadcast opts p rc outcome st) = participantsRef st"
  by (simp add: createWatchBroadcast_def Let_def)

lemma participantsRef_cleanupWatchBroadcast [simp]:
  "participantsRef (cleanupWatchBroadcast pid st) = participantsRef st"
  by (simp add: cleanupWatchBroadcast_def split: option.splits)

lemma participantsRef_joinLoop [simp]:
  "participantsRef (joinLoop opts oc prev ps st) = participantsRef st"
  unfolding joinLoop_def
  by (induction ps arbitrary: st) (simp_all add: Let_def)

lemma participantsRef_leaveLoop [simp]:
  "participantsRef (leaveLoop currentIds prev st) = participantsRef st"
  unfolding leaveLoop_def
  by (induction prev arbitrary: st) simp_all

lemma set_newSet [simp]: "set (newSet xs) = set xs"
  by (simp add: newSet_def)

text \<open>
  C1, amended: every view the broker sends (to one connection or broadcast to all) lists
  the whole registry, the requester's own entry included; the exclusion of the own id is
  done by the receiving client, whose handler keeps exactly the participants whose id
  differs from its \<open>playerId\<close>, so that neither the participant list it keeps nor the set
  of ids it tracks for subscriptions holds its own id.
\<close>

theorem client_filters_own_id:
  "map participants (map snd (sendBrokerUpdate b connection)) = [map snd (registry b)]
   \<and> map participants (map snd (broadcastUpdate b)) =
       replicate (length (connections b)) (map snd (registry b))
   \<and> participantsRef (stream_onMessage opts oc (Some data) st) =
       filter (\<lambda>p. participant_id p \<noteq> playerId opts) (participants data)
   \<and> playerId opts \<notin> set (map participant_id (participantsRef (stream_onMessage opts oc (Some data) st)))
   \<and> playerId opts \<notin> set (prevParticipantsRef (stream_onMessage opts oc (Some data) st))"
proof -
  have sent: "map participants (map snd (sendBrokerUpdate b connection)) = [map snd (registry b)]"
    by (simp add: sendBrokerUpdate_def makeUpdate_def)
  have "map participants (map snd (broadcastUpdate b)) =
      map (\<lambda>c. map snd (registry b)) (connections b)"
    by (simp add: broadcastUpdate_def makeUpdate_def comp_def)
  then have bc: "map participants (map snd (broadcastUpdate b)) =
      replicate (length (connections b)) (map snd (registry b))"
    by (simp add: map_replicate_const)
  have kept: "participantsRef (stream_onMessage opts oc (Some data) st) =
      filter (\<lambda>p. participant_id p \<noteq> playerId opts) (participants data)"
    by (simp add: stream_onMessage_def Let_def)
  have prev: "set (prevParticipantsRef (stream_onMessage opts oc (Some data) st)) =
      participant_id ` set (filter (\<lambda>p. participant_id p \<noteq> playerId opts) (participants data))"
    by (simp add: stream_onMessage_def Let_def)
  have no_self: "playerId opts \<notin> participant_id `
      set (filter (\<lambda>p. participant_id p \<noteq> playerId opts) (participants data))"
    by auto
  from sent bc kept prev no_self show ?thesis
    by simp
qed

theorem client_filters_own_id_witness:
  "participantsRef (stream_onMessage opts1 (\<lambda>i. Succeeds) (Some (makeUpdate broker1)) stream0) = []
   \<and> map participants (map snd (broadcastUpdate broker1)) = [map snd (registry broker1)]"
  using client_filters_own_id [of broker1 conn1 opts1 "\<lambda>i. Succeeds" "makeUpdate broker1" stream0]
  by (simp add: makeUpdate_def broker1_def broker0_def handleJoin_def setState_def conn1_def
      opts1_def Let_def)

text \<open>
  C2, as the claim states it, fails. \<open>p1\<close> is in the registry of \<open>broker1\<close>, and a second
  join of \<open>p1\<close> sends the registry to the connection again.
\<close>

theorem rejoin_broadcasts_again:
  "map fst (registry broker1) = [''p1'']
   \<and> viewsSentTo ''c1'' (snd (handleJoin ''p1'' ''Ann'' ''game/r/p1'' conn1 2000 broker1)) = [[''p1'']]"
  by (simp add: viewsSentTo_def handleJoin_def broadcastUpdate_def
      makeUpdate_def setState_def conn1_def broker0_def broker1_def Let_def)

text \<open>
  C2, amended: every call of the broker's join operation, for a new id or for one already
  in the registry, sends the updated full registry to every connection of the room (one
  message per connection), and the participant stored under the joining id has its
  \<open>lastSeen\<close> set to the time of the call.
\<close>

theorem handleJoin_always_broadcasts:
  "snd (handleJoin mid mname mpath connection now b) =
     map (\<lambda>c. (connection_id c, makeUpdate (fst (handleJoin mid mname mpath connection now b))))
         (connections (fst (handleJoin mid mname mpath connection now b)))
   \<and> length (snd (handleJoin mid mname mpath connection now b)) = length (connections b)
   \<and> map_option lastSeen (map_of (registry (fst (handleJoin mid mname mpath connection now b))) mid)
       = Some now
   \<and> mid \<in> set (map participant_id
        (participants (makeUpdate (fst (handleJoin mid mname mpath connection now b)))))"
proof -
  let ?p = "\<lparr> participant_id = mid, playerName = mname, moqPath = mpath,
             joinedAt = now, lastSeen = now \<rparr>"
  have reg: "registry (fst (handleJoin mid mname mpath connection now b)) =
      AList.update mid ?p (registry b)"
    by (simp add: handleJoin_def Let_def)
  have out: "snd (handleJoin mid mname mpath connection now b) =
      broadcastUpdate (fst (handleJoin mid mname mpath connection now b))"
    by (simp add: handleJoin_def Let_def)
  have conns: "length (connections (fst (handleJoin mid mname mpath connection now b))) =
      length (connections b)"
    by (simp add: handleJoin_def setState_def Let_def)
  have stored: "map_of (AList.update mid ?p (registry b)) mid = Some ?p"
    by (simp add: update_conv')
  have "(mid, ?p) \<in> set (AList.update mid ?p (registry b))"
    using stored by (rule map_of_SomeD)
  then have listed: "mid \<in> set (map participant_id (map snd (AList.update mid ?p (registry b))))"
    by force
  show ?thesis
    using out conns stored listed
    by (simp add: reg broadcastUpdate_def makeUpdate_def)
qed

theorem handleJoin_always_broadcasts_witness:
  "length (snd (handleJoin ''p1'' ''Ann'' ''game/r/p1'' conn1 2000 broker1)) = 1
   \<and> map_option lastSeen
        (map_of (registry (fst (handleJoin ''p1'' ''Ann'' ''game/r/p1'' conn1 2000 broker1))) ''p1'')
       = Some 2000"
  using handleJoin_always_broadcasts [of "''p1''" "''Ann''" "''game/r/p1''" conn1 2000 broker1]
  by (simp add: broker1_def broker0_def handleJoin_def setState_def conn1_def Let_def)

section \<open>Theorems: the presence reconciler\<close>

text \<open>
  C3, as the claim states it, fails. The entry holds a waypoint with origin timestamp 100;
  a sample stamped 50, which is older, replaces the position, the velocity and the origin
  timestamp in the next frame.
\<close>

theorem older_sample_replaces_waypoint:
  "originTimestamp (carVectors entry100) = Some 100
   \<and> timestamp olderSample = Some 50
   \<and> waypoint (useFrame 0 (Some olderSample) entry100) = Some (Vector3 9 0 0, Vector3 0 0 2, Some 50)"
  by (simp add: entry100_def olderSample_def waypoint_def useFrame_def capture_def
      multiplyScalar_def add_def lerp_def Let_def)

text \<open>
  A frame on a mounted player whose presence holds all the fields the callback reads.
\<close>

lemma useFrame_complete:
  assumes "playerRef s = Some g" and "capture presence (carVectors s) = Inr cv"
    and "rot presence = Some q" and "wheel presence = Some w"
  shows "useFrame delta (Some presence) s =
     Inr \<lparr> carVectors = cv\<lparr>deltaVelocity := multiplyScalar (velocity cv) delta,
                          positionCurrent := add (positionCurrent cv) (multiplyScalar (velocity cv) delta),
                          wheelRotation := wx w, visibleSteering := wy w\<rparr>,
           playerRef = Some (g\<lparr>position := lerp (position g)
                                  (add (positionCurrent cv) (multiplyScalar (velocity cv) delta))
                                  (min (delta * 10) 1),
                               quaternion := q\<rparr>) \<rparr>"
  using assms by (simp add: useFrame_def Let_def)

text \<open>
  C3, amended: for every reconciler entry and every incoming sample for that participant,
  the stored position and velocity waypoint is replaced exactly when the sample's
  timestamp differs from the stored origin timestamp, whether it is newer or older; a
  sample whose timestamp is equal is discarded for position and velocity, and the frame
  only advances the stored waypoint by its velocity.
\<close>

theorem waypoint_replaced_iff_timestamp_differs:
  assumes "playerRef s = Some g"
    and "pos presence = Some p" and "vel presence = Some v"
    and "rot presence = Some q" and "wheel presence = Some w"
  shows "waypoint (useFrame delta (Some presence) s) =
     Some (if originTimestamp (carVectors s) \<noteq> timestamp presence
           then (add p (multiplyScalar v delta), v, timestamp presence)
           else (add (positionCurrent (carVectors s)) (multiplyScalar (velocity (carVectors s)) delta),
                 velocity (carVectors s), originTimestamp (carVectors s)))"
proof (cases "originTimestamp (carVectors s) = timestamp presence")
  case True
  then have "capture presence (carVectors s) = Inr (carVectors s)"
    by (simp add: capture_def)
  from useFrame_complete [OF assms(1) this assms(4) assms(5)] True
  show ?thesis
    by (simp add: waypoint_def)
next
  case False
  then have "capture presence (carVectors s) =
      Inr ((carVectors s)\<lparr>velocity := v, positionCurrent := p, originTimestamp := timestamp presence\<rparr>)"
    using assms(2,3) by (simp add: capture_def)
  from useFrame_complete [OF assms(1) this assms(4) assms(5)] False
  show ?thesis
    by (simp add: waypoint_def)
qed

theorem waypoint_replaced_iff_timestamp_differs_witness:
  "waypoint (useFrame (1/2) (Some olderSample) entry100) = Some (Vector3 9 0 1, Vector3 0 0 2, Some 50)
   \<and> waypoint (useFrame (1/2) (Some (sampleB 100)) entry100) = Some (Vector3 (11/2) 0 0, Vector3 1 0 0, Some 100)"
  using waypoint_replaced_iff_timestamp_differs [of entry100
      "\<lparr> position = Vector3 5 0 0, quaternion = Quaternion 0 0 0 1 \<rparr>" olderSample
      "Vector3 9 0 0" "Vector3 0 0 2" "Quaternion 0 0 0 1" "Vector2 0 0" "1/2"]
    waypoint_replaced_iff_timestamp_differs [of entry100
      "\<lparr> position = Vector3 5 0 0, quaternion = Quaternion 0 0 0 1 \<rparr>" "sampleB 100"
      "Vector3 0 0 0" "Vector3 1 0 0" "Quaternion 0 0 0 1" "Vector2 0 0" "1/2"]
  by (simp add: entry100_def olderSample_def sampleB_def multiplyScalar_def add_def)

text \<open>Storing or merging the same presence a second time changes nothing.\<close>

lemma spread_twice: "spread (spread a b) b = spread a b"
  by (simp add: spread_def split: option.splits)

lemma mergePresence_twice: "mergePresence (mergePresence c p) p = mergePresence c p"
  by (simp add: mergePresence_def spread_twice)

lemma deliver_twice: "deliver e (deliver e slot) = deliver e slot"
  by (cases e) (simp_all add: mergePresence_twice)

lemma trajectory_skip_delivery:
  assumes "deliver e slot = slot" and "e = Replace presence \<or> e = Delta presence"
  shows "trajectory (map Frame ds @ e # es) slot s = trajectory (map Frame ds @ es) slot s"
proof (induction ds arbitrary: s)
  case Nil
  show ?case
    using assms by auto
next
  case (Cons d ds)
  show ?case
    by (simp add: Cons.IH split: sum.splits option.splits)
qed

text \<open>
  C4: delivering the same sample a second time, after any number of frames, gives the
  same trajectory of smoothed positions as delivering it once, whatever events follow;
  and in a frame, a sample whose timestamp equals the stored origin timestamp leaves the
  waypoint as it is, advanced only by its own velocity.
\<close>

theorem duplicate_sample_same_trajectory:
  "(e = Replace presence \<or> e = Delta presence \<longrightarrow>
      trajectory (e # map Frame ds @ e # es) slot s = trajectory (e # map Frame ds @ es) slot s)
   \<and> (playerRef s = Some g \<and> timestamp sample = originTimestamp (carVectors s)
        \<and> rot sample = Some q \<and> wheel sample = Some w \<longrightarrow>
      waypoint (useFrame delta (Some sample) s) =
        Some (add (positionCurrent (carVectors s)) (multiplyScalar (velocity (carVectors s)) delta),
              velocity (carVectors s), originTimestamp (carVectors s)))"
proof (intro conjI impI)
  assume kind: "e = Replace presence \<or> e = Delta presence"
  then have step: "trajectory (e # evs) slot s = trajectory evs (deliver e slot) s" for evs
    by auto
  show "trajectory (e # map Frame ds @ e # es) slot s = trajectory (e # map Frame ds @ es) slot s"
    by (simp only: step trajectory_skip_delivery [OF deliver_twice kind])
next
  assume a: "playerRef s = Some g \<and> timestamp sample = originTimestamp (carVectors s)
        \<and> rot sample = Some q \<and> wheel sample = Some w"
  then have "capture sample (carVectors s) = Inr (carVectors s)"
    by (simp add: capture_def)
  with a have "useFrame delta (Some sample) s =
     Inr \<lparr> carVectors = (carVectors s)\<lparr>deltaVelocity := multiplyScalar (velocity (carVectors s)) delta,
                          positionCurrent := add (positionCurrent (carVectors s)) (multiplyScalar (velocity (carVectors s)) delta),
                          wheelRotation := wx w, visibleSteering := wy w\<rparr>,
           playerRef = Some (g\<lparr>position := lerp (position g)
                                  (add (positionCurrent (carVectors s)) (multiplyScalar (velocity (carVectors s)) delta))
                                  (min (delta * 10) 1),
                               quaternion := q\<rparr>) \<rparr>"
    by (intro useFrame_complete) simp_all
  then show "waypoint (useFrame delta (Some sample) s) =
        Some (add (positionCurrent (carVectors s)) (multiplyScalar (velocity (carVectors s)) delta),
              velocity (carVectors s), originTimestamp (carVectors s))"
    by (simp add: waypoint_def)
qed

theorem duplicate_sample_same_trajectory_witness:
  "trajectory (Replace (sampleB 100) # map Frame [1/20] @ Replace (sampleB 100) # [Frame (1/20)])
       None entry100
     = trajectory (Replace (sampleB 100) # map Frame [1/20] @ [Frame (1/20)]) None entry100
   \<and> waypoint (useFrame (1/2) (Some (sampleB 100)) entry100)
       = Some (Vector3 (11/2) 0 0, Vector3 1 0 0, Some 100)"
  using duplicate_sample_same_trajectory [where e = "Replace (sampleB 100)"
      and presence = "sampleB 100" and ds = "[1/20]" and es = "[Frame (1/20)]" and slot = None
      and s = entry100 and g = "\<lparr> position = Vector3 5 0 0, quaternion = Quaternion 0 0 0 1 \<rparr>"
      and sample = "sampleB 100" and q = "Quaternion 0 0 0 1" and w = "Vector2 0 0"
      and delta = "1/2"]
  by (simp add: entry100_def sampleB_def multiplyScalar_def add_def)

text \<open>
  C5, as the claim states it, fails. After the sample with position 0 and velocity
  (1, 0, 0), one frame of 200 ms has a blend factor \<open>min (0.2 * 10) 1 = 1\<close>, and the queried
  x-coordinate is exactly 0.2.
\<close>

theorem one_long_tick_reaches_the_target:
  "map vx (trajectory [Replace (sampleB 100), Frame (1/5)] None newOtherPlayer) = [1/5]"
  by (simp add: sampleB_def newOtherPlayer_def zero3_def useFrame_def capture_def
      multiplyScalar_def add_def lerp_def Let_def)

text \<open>
  One blend with a factor below 1 lands strictly between the old smoothed value and the
  advanced waypoint.
\<close>

lemma blend_between:
  fixes S P d :: real
  assumes "0 \<le> S" and "S \<le> P" and "0 < d" and "d < 1/10"
  shows "0 < S + (P + d - S) * min (d * 10) 1"
    and "S + (P + d - S) * min (d * 10) 1 < P + d"
proof -
  have m: "min (d * 10) 1 = d * 10"
    using assms(4) by simp
  have D: "0 < P + d - S"
    using assms(2,3) by simp
  have a0: "0 < d * 10" and a1: "d * 10 < 1"
    using assms(3,4) by simp_all
  have "0 < (P + d - S) * (d * 10)"
    using D a0 by (rule mult_pos_pos)
  then have "0 < S + (P + d - S) * (d * 10)"
    using assms(1) by linarith
  then show "0 < S + (P + d - S) * min (d * 10) 1"
    by (simp only: m)
  have "(P + d - S) * (d * 10) < (P + d - S) * 1"
    using a1 D by (rule mult_strict_left_mono)
  then have "(P + d - S) * (d * 10) < P + d - S"
    by (simp only: mult_1_right)
  then have "S + (P + d - S) * (d * 10) < P + d"
    by linarith
  then show "S + (P + d - S) * min (d * 10) 1 < P + d"
    by (simp only: m)
qed

lemma frame_step:
  assumes g: "playerRef s = Some g"
    and cap: "capture (sampleB ts) (carVectors s) = Inr cv"
    and org: "originTimestamp cv = Some ts"
    and v: "velocity cv = Vector3 1 0 0"
    and d: "0 < d" "d < 1/10"
    and S: "0 \<le> vx (position g)" "vx (position g) \<le> vx (positionCurrent cv)"
  shows "\<exists>s' g'. useFrame d (Some (sampleB ts)) s = Inr s' \<and> playerRef s' = Some g'
      \<and> capture (sampleB ts) (carVectors s') = Inr (carVectors s')
      \<and> originTimestamp (carVectors s') = Some ts
      \<and> velocity (carVectors s') = Vector3 1 0 0
      \<and> vx (positionCurrent (carVectors s')) = vx (positionCurrent cv) + d
      \<and> 0 < vx (position g') \<and> vx (position g') < vx (positionCurrent (carVectors s'))"
proof -
  let ?cv' = "cv\<lparr>deltaVelocity := multiplyScalar (velocity cv) d,
                 positionCurrent := add (positionCurrent cv) (multiplyScalar (velocity cv) d),
                 wheelRotation := wx (Vector2 0 0), visibleSteering := wy (Vector2 0 0)\<rparr>"
  let ?g' = "g\<lparr>position := lerp (position g)
                  (add (positionCurrent cv) (multiplyScalar (velocity cv) d)) (min (d * 10) 1),
               quaternion := Quaternion 0 0 0 1\<rparr>"
  have run: "useFrame d (Some (sampleB ts)) s = Inr \<lparr> carVectors = ?cv', playerRef = Some ?g' \<rparr>"
    by (rule useFrame_complete [OF g cap]) (simp_all add: sampleB_def)
  have P: "vx (add (positionCurrent cv) (multiplyScalar (velocity cv) d)) = vx (positionCurrent cv) + d"
    by (simp add: add_def multiplyScalar_def v)
  have X: "vx (position ?g') =
      vx (position g) + (vx (positionCurrent cv) + d - vx (position g)) * min (d * 10) 1"
    by (simp add: lerp_def P)
  have "capture (sampleB ts) ?cv' = Inr ?cv'"
    by (simp add: capture_def sampleB_def org)
  moreover have "0 < vx (position ?g')"
    unfolding X using S d by (rule blend_between(1))
  moreover have "vx (position ?g') < vx (positionCurrent cv) + d"
    unfolding X using S d by (rule blend_between(2))
  ultimately show ?thesis
    using run P by (simp add: org v)
qed

lemma frames_bounds:
  assumes "ds \<noteq> []" and "\<forall>d\<in>set ds. 0 < d \<and> d < 1/10"
    and "playerRef s = Some g"
    and "capture (sampleB ts) (carVectors s) = Inr cv"
    and "originTimestamp cv = Some ts"
    and "velocity cv = Vector3 1 0 0"
    and "0 \<le> vx (position g)" and "vx (position g) \<le> vx (positionCurrent cv)"
  shows "length (trajectory (map Frame ds) (Some (sampleB ts)) s) = length ds
     \<and> 0 < vx (last (trajectory (map Frame ds) (Some (sampleB ts)) s))
     \<and> vx (last (trajectory (map Frame ds) (Some (sampleB ts)) s)) < vx (positionCurrent cv) + sum_list ds"
  using assms
proof (induction ds arbitrary: s g cv)
  case Nil
  then show ?case by simp
next
  case (Cons d ds)
  from Cons.prems(2) have d: "0 < d" "d < 1/10"
    by simp_all
  from frame_step [OF Cons.prems(3) Cons.prems(4) Cons.prems(5) Cons.prems(6) d Cons.prems(7) Cons.prems(8)]
  obtain s' g' where run: "useFrame d (Some (sampleB ts)) s = Inr s'"
    and g': "playerRef s' = Some g'"
    and cap': "capture (sampleB ts) (carVectors s') = Inr (carVectors s')"
    and org': "originTimestamp (carVectors s') = Some ts"
    and v': "velocity (carVectors s') = Vector3 1 0 0"
    and P': "vx (positionCurrent (carVectors s')) = vx (positionCurrent cv) + d"
    and lo: "0 < vx (position g')"
    and hi: "vx (position g') < vx (positionCurrent (carVectors s'))"
    by blast
  have unfold: "trajectory (map Frame (d # ds)) (Some (sampleB ts)) s =
      position g' # trajectory (map Frame ds) (Some (sampleB ts)) s'"
    by (simp add: run g')
  show ?case
  proof (cases "ds = []")
    case True
    show ?thesis
      unfolding unfold using True lo hi P' by simp
  next
    case False
    from Cons.prems(2) have all: "\<forall>d\<in>set ds. 0 < d \<and> d < 1/10"
      by simp
    have lo': "0 \<le> vx (position g')" and hi': "vx (position g') \<le> vx (positionCurrent (carVectors s'))"
      using lo hi by simp_all
    from Cons.IH [OF False all g' cap' org' v' lo' hi']
    have len: "length (trajectory (map Frame ds) (Some (sampleB ts)) s') = length ds"
      and b1: "0 < vx (last (trajectory (map Frame ds) (Some (sampleB ts)) s'))"
      and b2: "vx (last (trajectory (map Frame ds) (Some (sampleB ts)) s'))
                < vx (positionCurrent (carVectors s')) + sum_list ds"
      by simp_all
    from len False have ne: "trajectory (map Frame ds) (Some (sampleB ts)) s' \<noteq> []"
      by auto
    show ?thesis
      unfolding unfold using len b1 b2 P' ne by simp
  qed
qed

text \<open>
  C5, amended: on every frame with elapsed time \<open>delta\<close> the reconciler first advances the
  waypoint by velocity times \<open>delta\<close> and then sets the smoothed position to the blend of
  the old smoothed position and the advanced waypoint with factor \<open>min (delta * 10) 1\<close>;
  and after a sample with position 0, velocity (1, 0, 0) and a timestamp other than the
  initial 0, any nonempty sequence of frames each shorter than 100 ms (200 ms in all, for
  instance) leaves the queried x-coordinate strictly above 0 and strictly below the
  elapsed time (0.2).
\<close>

theorem tick_extrapolates_then_blends:
  assumes "ts \<noteq> 0" and "ds \<noteq> []" and "\<forall>d\<in>set ds. 0 < d \<and> d < 1/10"
  shows "(\<forall>delta presence s g cv q w.
            playerRef s = Some g \<and> capture presence (carVectors s) = Inr cv
            \<and> rot presence = Some q \<and> wheel presence = Some w \<longrightarrow>
            (\<exists>s'. useFrame delta (Some presence) s = Inr s'
               \<and> positionCurrent (carVectors s') = add (positionCurrent cv) (multiplyScalar (velocity cv) delta)
               \<and> map_option position (playerRef s') =
                   Some (lerp (position g) (positionCurrent (carVectors s')) (min (delta * 10) 1))))
     \<and> length (trajectory (Replace (sampleB ts) # map Frame ds) slot newOtherPlayer) = length ds
     \<and> 0 < vx (last (trajectory (Replace (sampleB ts) # map Frame ds) slot newOtherPlayer))
     \<and> vx (last (trajectory (Replace (sampleB ts) # map Frame ds) slot newOtherPlayer)) < sum_list ds"
proof -
  have tick: "\<exists>s'. useFrame delta (Some presence) s = Inr s'
       \<and> positionCurrent (carVectors s') = add (positionCurrent cv) (multiplyScalar (velocity cv) delta)
       \<and> map_option position (playerRef s') =
           Some (lerp (position g) (positionCurrent (carVectors s')) (min (delta * 10) 1))"
    if "playerRef s = Some g" "capture presence (carVectors s) = Inr cv"
       "rot presence = Some q" "wheel presence = Some w"
    for delta presence s g cv q w
    using useFrame_complete [OF that, of delta] by simp
  let ?cv = "(carVectors newOtherPlayer)\<lparr>velocity := Vector3 1 0 0, positionCurrent := Vector3 0 0 0,
                originTimestamp := Some ts\<rparr>"
  have cap: "capture (sampleB ts) (carVectors newOtherPlayer) = Inr ?cv"
    using assms(1) by (simp add: capture_def sampleB_def newOtherPlayer_def)
  have g: "playerRef newOtherPlayer = Some \<lparr> position = zero3, quaternion = Quaternion 0 0 0 1 \<rparr>"
    by (simp add: newOtherPlayer_def)
  have start: "trajectory (Replace (sampleB ts) # map Frame ds) slot newOtherPlayer =
      trajectory (map Frame ds) (Some (sampleB ts)) newOtherPlayer"
    by simp
  from frames_bounds [OF assms(2) assms(3) g cap]
  have "length (trajectory (map Frame ds) (Some (sampleB ts)) newOtherPlayer) = length ds
     \<and> 0 < vx (last (trajectory (map Frame ds) (Some (sampleB ts)) newOtherPlayer))
     \<and> vx (last (trajectory (map Frame ds) (Some (sampleB ts)) newOtherPlayer)) < sum_list ds"
    by (simp add: zero3_def)
  with tick show ?thesis
    unfolding start by blast
qed

theorem tick_extrapolates_then_blends_witness:
  "length (trajectory (Replace (sampleB 100) # map Frame [1/20, 1/20, 1/20, 1/20]) None newOtherPlayer) = 4
   \<and> 0 < vx (last (trajectory (Replace (sampleB 100) # map Frame [1/20, 1/20, 1/20, 1/20]) None newOtherPlayer))
   \<and> vx (last (trajectory (Replace (sampleB 100) # map Frame [1/20, 1/20, 1/20, 1/20]) None newOtherPlayer)) < 1/5"
proof -
  have h1: "(100::real) \<noteq> 0" by simp
  have h2: "[1/20, 1/20, 1/20, 1/20::real] \<noteq> []" by simp
  have h3: "\<forall>d\<in>set [1/20, 1/20, 1/20, 1/20::real]. 0 < d \<and> d < 1/10" by simp
  have sum: "sum_list [1/20, 1/20, 1/20, 1/20::real] = 1/5" by simp
  from tick_extrapolates_then_blends [OF h1 h2 h3, of None] show ?thesis
    unfolding sum by simp
qed

section \<open>Theorems: the peer session manager\<close>

text \<open>
  C6, as the claim states it, fails. When every attempt to watch \<open>peer2\<close> throws, the
  delays passed to \<open>setTimeout\<close> are 1000, 2000 and 3000 ms: the third is not the double
  of the second.
\<close>

theorem retry_delays_grow_linearly:
  "delaysOf (console (drainTimers opts1 (\<lambda>k. ThrowsAtBroadcast)
      (createWatchBroadcast opts1 peer2 0 ThrowsAtBroadcast stream0))) = [1000, 2000, 3000]
   \<and> retryDelay 2 = 3000 \<and> 2 * retryDelay 1 = 4000"
  by (simp add: drainTimers.simps delaysOf_def createWatchBroadcast_def catchBlock_def fireTimer_def
      retryDelay_def opts1_def peer2_def stream0_def ourPath_def Let_def)

text \<open>What one failing attempt leaves behind, and the firing of the only pending timer.\<close>

lemma delaysOf_append [simp]: "delaysOf (xs @ ys) = delaysOf xs @ delaysOf ys"
  by (simp add: delaysOf_def)

lemma retriesOf_append [simp]: "retriesOf (xs @ ys) = retriesOf xs @ retriesOf ys"
  by (simp add: retriesOf_def)

lemma failed_attempt:
  assumes "moqConnectionRef st" and "participant_id p \<noteq> playerId opts"
    and "moqPath p \<noteq> ourPath opts" and "outcome \<noteq> Succeeds"
  shows "timers (createWatchBroadcast opts p rc outcome st) =
           timers st @ (if rc < 3 then [(retryDelay rc, p, Suc rc)] else [])"
    and "delaysOf (console (createWatchBroadcast opts p rc outcome st)) =
           delaysOf (console st) @ (if rc < 3 then [retryDelay rc] else [])"
    and "retriesOf (console (createWatchBroadcast opts p rc outcome st)) = retriesOf (console st)"
    and "moqConnectionRef (createWatchBroadcast opts p rc outcome st)"
    and "\<not> rc < 3 \<Longrightarrow>
           last (console (createWatchBroadcast opts p rc outcome st)) = ErrorAfter3Attempts (playerName p)"
  using assms
  by (cases outcome; simp add: createWatchBroadcast_def catchBlock_def Let_def delaysOf_def retriesOf_def)+

lemma fire_single:
  assumes "timers st = [(d, p, rc)]"
  shows "drainTimers opts oc st =
     drainTimers opts oc
       (createWatchBroadcast opts p rc (oc rc)
          (st\<lparr>timers := [], console := console st @ [LogRetrying (playerName p) rc]\<rparr>))"
  by (subst drainTimers.simps) (simp add: assms fireTimer_def)

lemma retry_chain:
  assumes "participant_id p \<noteq> playerId opts" and "moqPath p \<noteq> ourPath opts"
    and "\<forall>k. oc k \<noteq> Succeeds"
  shows "rc \<le> 3 \<Longrightarrow> moqConnectionRef st \<Longrightarrow> timers st = [] \<Longrightarrow>
     timers (drainTimers opts oc (createWatchBroadcast opts p rc (oc rc) st)) = []
     \<and> delaysOf (console (drainTimers opts oc (createWatchBroadcast opts p rc (oc rc) st))) =
         delaysOf (console st) @ map retryDelay [rc..<3]
     \<and> retriesOf (console (drainTimers opts oc (createWatchBroadcast opts p rc (oc rc) st))) =
         retriesOf (console st) @ [Suc rc..<4]
     \<and> last (console (drainTimers opts oc (createWatchBroadcast opts p rc (oc rc) st))) =
         ErrorAfter3Attempts (playerName p)"
proof (induction "3 - rc" arbitrary: rc st)
  case 0
  then have rc: "rc = 3" by simp
  have fails: "oc rc \<noteq> Succeeds"
    using assms(3) by simp
  let ?st1 = "createWatchBroadcast opts p rc (oc rc) st"
  have t: "timers ?st1 = []"
    using failed_attempt(1) [OF "0.prems"(2) assms(1) assms(2) fails, of rc] "0.prems"(3) rc by simp
  then have stop: "drainTimers opts oc ?st1 = ?st1"
    by (subst drainTimers.simps) simp
  show ?case
    unfolding stop
    using t failed_attempt(2,3) [OF "0.prems"(2) assms(1) assms(2) fails, of rc]
      failed_attempt(5) [OF "0.prems"(2) assms(1) assms(2) fails, of rc] rc
    by simp
next
  case (Suc n)
  then have lt: "rc < 3" and n: "n = 3 - Suc rc" and le: "Suc rc \<le> 3"
    by simp_all
  have fails: "oc rc \<noteq> Succeeds"
    using assms(3) by simp
  let ?st1 = "createWatchBroadcast opts p rc (oc rc) st"
  let ?st2 = "?st1\<lparr>timers := [], console := console ?st1 @ [LogRetrying (playerName p) (Suc rc)]\<rparr>"
  have t: "timers ?st1 = [(retryDelay rc, p, Suc rc)]"
    using failed_attempt(1) [OF Suc.prems(2) assms(1) assms(2) fails, of rc] Suc.prems(3) lt by simp
  have d: "delaysOf (console ?st1) = delaysOf (console st) @ [retryDelay rc]"
    using failed_attempt(2) [OF Suc.prems(2) assms(1) assms(2) fails, of rc] lt by simp
  have r: "retriesOf (console ?st1) = retriesOf (console st)"
    using failed_attempt(3) [OF Suc.prems(2) assms(1) assms(2) fails, of rc] by simp
  have c: "moqConnectionRef ?st2"
    using failed_attempt(4) [OF Suc.prems(2) assms(1) assms(2) fails, of rc] by simp
  have e: "timers ?st2 = []"
    by simp
  have next_step: "drainTimers opts oc ?st1 =
      drainTimers opts oc (createWatchBroadcast opts p (Suc rc) (oc (Suc rc)) ?st2)"
    by (rule fire_single [OF t])
  have "delaysOf [LogRetrying (playerName p) (Suc rc)] = []"
    by (simp add: delaysOf_def)
  then have d2: "delaysOf (console ?st2) = delaysOf (console st) @ [retryDelay rc]"
    by (simp add: d)
  have "retriesOf [LogRetrying (playerName p) (Suc rc)] = [Suc rc]"
    by (simp add: retriesOf_def)
  then have r2: "retriesOf (console ?st2) = retriesOf (console st) @ [Suc rc]"
    by (simp add: r)
  have up1: "[rc..<3] = rc # [Suc rc..<3]"
    using lt by (simp add: upt_conv_Cons)
  have up2: "[Suc rc..<4] = Suc rc # [Suc (Suc rc)..<4]"
    using lt by (simp add: upt_conv_Cons)
  from Suc.hyps(1) [OF n le c e]
  show ?case
    unfolding next_step d2 r2 up1 up2 by simp
qed

text \<open>
  C6, amended: for every peer subscription whose open keeps failing, the peer session
  manager retries with a delay that grows linearly: the retry after the failure of the
  attempt with retry count \<open>rc < 3\<close> waits \<open>1000 * (rc + 1)\<close> ms, so the three retries wait
  1000, 2000 and 3000 ms; no more than 3 retries are made, no timer is left, and the
  failure of the last one is logged. An attempt that fails after its wait of 100 ms, in
  the subscription, schedules the same retry as one that fails before it.
\<close>

theorem watch_retries_back_off_linearly:
  assumes "moqConnectionRef st" and "timers st = []"
    and "participant_id p \<noteq> playerId opts" and "moqPath p \<noteq> ourPath opts"
    and "\<forall>k. oc k \<noteq> Succeeds"
  shows "timers (drainTimers opts oc (createWatchBroadcast opts p 0 (oc 0) st)) = []
     \<and> delaysOf (console (drainTimers opts oc (createWatchBroadcast opts p 0 (oc 0) st))) =
         delaysOf (console st) @ [1000, 2000, 3000]
     \<and> retriesOf (console (drainTimers opts oc (createWatchBroadcast opts p 0 (oc 0) st))) =
         retriesOf (console st) @ [1, 2, 3]
     \<and> last (console (drainTimers opts oc (createWatchBroadcast opts p 0 (oc 0) st))) =
         ErrorAfter3Attempts (playerName p)
     \<and> (\<forall>rc outcome. outcome \<noteq> Succeeds \<longrightarrow>
           timers (createWatchBroadcast opts p rc outcome st) =
             (if rc < 3 then [(1000 * (int rc + 1), p, rc + 1)] else []))
     \<and> (\<forall>rc. timers (resumeWatchBroadcast ThrowsAtSubscribe (st\<lparr>awaiting := [(p, rc)]\<rparr>)) =
             (if rc < 3 then [(1000 * (int rc + 1), p, rc + 1)] else []))"
proof -
  have up3: "[0..<3] = [0, 1, 2]" and up4: "[Suc 0..<4] = [1, 2, 3]"
    by (simp_all add: upt_rec)
  have chain: "timers (drainTimers opts oc (createWatchBroadcast opts p 0 (oc 0) st)) = []
     \<and> delaysOf (console (drainTimers opts oc (createWatchBroadcast opts p 0 (oc 0) st))) =
         delaysOf (console st) @ map retryDelay [0..<3]
     \<and> retriesOf (console (drainTimers opts oc (createWatchBroadcast opts p 0 (oc 0) st))) =
         retriesOf (console st) @ [Suc 0..<4]
     \<and> last (console (drainTimers opts oc (createWatchBroadcast opts p 0 (oc 0) st))) =
         ErrorAfter3Attempts (playerName p)"
    by (rule retry_chain [OF assms(3) assms(4) assms(5) _ assms(1) assms(2)]) simp
  have each: "timers (createWatchBroadcast opts p rc outcome st) =
             (if rc < 3 then [(1000 * (int rc + 1), p, rc + 1)] else [])"
    if "outcome \<noteq> Succeeds" for rc outcome
    using failed_attempt(1) [OF assms(1) assms(3) assms(4) that, of rc] assms(2)
    by (simp add: retryDelay_def)
  have late: "timers (resumeWatchBroadcast ThrowsAtSubscribe (st\<lparr>awaiting := [(p, rc)]\<rparr>)) =
             (if rc < 3 then [(1000 * (int rc + 1), p, rc + 1)] else [])" for rc
    using assms(2) by (simp add: resumeWatchBroadcast_def timers_catchBlock retryDelay_def)
  from chain each late show ?thesis
    unfolding up3 up4 by (simp add: retryDelay_def)
qed

theorem watch_retries_back_off_linearly_witness:
  "delaysOf (console (drainTimers opts1 (\<lambda>k. ThrowsAtPath)
      (createWatchBroadcast opts1 peer2 0 ThrowsAtPath stream0))) = [1000, 2000, 3000]
   \<and> retriesOf (console (drainTimers opts1 (\<lambda>k. ThrowsAtPath)
      (createWatchBroadcast opts1 peer2 0 ThrowsAtPath stream0))) = [1, 2, 3]
   \<and> last (console (drainTimers opts1 (\<lambda>k. ThrowsAtPath)
      (createWatchBroadcast opts1 peer2 0 ThrowsAtPath stream0))) = ErrorAfter3Attempts ''Bob''"
proof -
  have h1: "moqConnectionRef stream0" and h2: "timers stream0 = []"
    by (simp_all add: stream0_def)
  have h3: "participant_id peer2 \<noteq> playerId opts1" and h4: "moqPath peer2 \<noteq> ourPath opts1"
    by (simp_all add: peer2_def opts1_def ourPath_def)
  have h5: "\<forall>k::nat. ThrowsAtPath \<noteq> Succeeds"
    by simp
  have c0: "delaysOf (console stream0) = []" "retriesOf (console stream0) = []"
    by (simp_all add: stream0_def delaysOf_def retriesOf_def)
  have nm: "playerName peer2 = ''Bob''"
    by (simp add: peer2_def)
  from watch_retries_back_off_linearly [OF h1 h2 h3 h4, of "\<lambda>k. ThrowsAtPath", OF h5]
  show ?thesis
    unfolding c0 nm by simp
qed

text \<open>
  C7, as the claim states it, fails. With a retry for \<open>peer2\<close> pending, the broker update
  that removes \<open>peer2\<close> leaves the timer in place; when it fires, the retry is logged, the
  broadcast is constructed again and, once its wait is over, a broadcast for the removed
  participant is stored.
\<close>

theorem retry_fires_after_removal:
  "timers afterJoinFailed = [(1000, peer2, 1)]
   \<and> console afterRemoval = console afterJoinFailed @ [CallbackLeave ''p2'']
   \<and> timers afterRemoval = [(1000, peer2, 1)]
   \<and> console (fireTimer opts1 Succeeds afterRemoval) =
       console afterRemoval @ [LogRetrying ''Bob'' 1, WatchAttempt ''p2'' 1]
   \<and> console (resumeWatchBroadcast Subscribes (fireTimer opts1 Succeeds afterRemoval)) =
       console afterRemoval @ [LogRetrying ''Bob'' 1, WatchAttempt ''p2'' 1, LogCreated ''Bob'']
   \<and> map fst (remoteBroadcastsRef (resumeWatchBroadcast Subscribes
         (fireTimer opts1 Succeeds afterRemoval))) = [''p2'']"
  by (simp add: afterRemoval_def afterJoinFailed_def stream_onMessage_def joinLoop_def leaveLoop_def
      newSet_def updateWith_def createWatchBroadcast_def resumeWatchBroadcast_def catchBlock_def
      cleanupWatchBroadcast_def fireTimer_def retryDelay_def opts1_def peer2_def stream0_def
      ourPath_def Let_def)

text \<open>What the removal does to the two Maps, key by key.\<close>

lemma map_of_delete_self: "map_of (AList.delete k al) k = None"
  by (simp add: delete_conv')

lemma map_of_delete_other: "k' \<noteq> k \<Longrightarrow> map_of (AList.delete k al) k' = map_of al k'"
  by (simp add: delete_conv')

lemma cleanup_open:
  assumes "map_of (remoteBroadcastsRef st) pid \<noteq> None"
  shows "cleanupWatchBroadcast pid st =
     st\<lparr>remoteBroadcastsRef := AList.delete pid (remoteBroadcastsRef st),
        remoteStatesRef := AList.delete pid (remoteStatesRef st),
        console := console st @ [BroadcastClosed pid]\<rparr>"
  using assms by (auto simp: cleanupWatchBroadcast_def)

lemma cleanup_none:
  assumes "map_of (remoteBroadcastsRef st) pid = None"
  shows "cleanupWatchBroadcast pid st = st"
  using assms by (simp add: cleanupWatchBroadcast_def)

lemma cleanup_maps_other:
  assumes "k \<noteq> pid"
  shows "map_of (remoteBroadcastsRef (cleanupWatchBroadcast pid st)) k = map_of (remoteBroadcastsRef st) k"
    and "map_of (remoteStatesRef (cleanupWatchBroadcast pid st)) k = map_of (remoteStatesRef st) k"
  using assms
  by (cases "map_of (remoteBroadcastsRef st) pid";
      simp add: cleanup_none cleanup_open map_of_delete_other)+

text \<open>
  C7, amended: removing a participant closes the broadcast that the Map holds for it and
  deletes its entries in the Map of broadcasts and in the Map of states, leaving the
  entries of every other participant; when the Map holds none it changes nothing, so it
  is safe for a subscription that never opened and safe to repeat. It cancels nothing
  that is under way: the pending timers are as before, and a retry timer that fires
  afterwards logs the retry and calls \<open>createWatchBroadcast\<close> again; and a call that has
  constructed its broadcast and is in its wait of 100 ms is not closed by the removal and
  stores its broadcast for the removed participant when the wait is over.
\<close>

theorem cleanup_leaves_pending_retry:
  "timers (cleanupWatchBroadcast pid st) = timers st
   \<and> awaiting (cleanupWatchBroadcast pid st) = awaiting st
   \<and> (map_of (remoteBroadcastsRef st) pid = None \<longrightarrow> cleanupWatchBroadcast pid st = st)
   \<and> (map_of (remoteBroadcastsRef st) pid \<noteq> None \<longrightarrow>
        console (cleanupWatchBroadcast pid st) = console st @ [BroadcastClosed pid]
        \<and> remoteBroadcastsRef (cleanupWatchBroadcast pid st) = AList.delete pid (remoteBroadcastsRef st)
        \<and> remoteStatesRef (cleanupWatchBroadcast pid st) = AList.delete pid (remoteStatesRef st)
        \<and> map_of (remoteStatesRef (cleanupWatchBroadcast pid st)) pid = None)
   \<and> map_of (remoteBroadcastsRef (cleanupWatchBroadcast pid st)) pid = None
   \<and> (\<forall>k. k \<noteq> pid \<longrightarrow>
        map_of (remoteBroadcastsRef (cleanupWatchBroadcast pid st)) k = map_of (remoteBroadcastsRef st) k
        \<and> map_of (remoteStatesRef (cleanupWatchBroadcast pid st)) k = map_of (remoteStatesRef st) k)
   \<and> cleanupWatchBroadcast pid (cleanupWatchBroadcast pid st) = cleanupWatchBroadcast pid st
   \<and> (timers st = (d, p, rc) # rest \<longrightarrow>
        fireTimer opts outcome (cleanupWatchBroadcast pid st) =
          createWatchBroadcast opts p rc outcome
            ((cleanupWatchBroadcast pid st)
               \<lparr>timers := rest,
                console := console (cleanupWatchBroadcast pid st) @ [LogRetrying (playerName p) rc]\<rparr>))
   \<and> (awaiting st = (q, n) # ws \<and> participant_id q = pid \<longrightarrow>
        map_of (remoteBroadcastsRef (resumeWatchBroadcast Subscribes (cleanupWatchBroadcast pid st))) pid
          = Some (moqPath q)
        \<and> console (resumeWatchBroadcast Subscribes (cleanupWatchBroadcast pid st)) =
            console (cleanupWatchBroadcast pid st) @ [LogCreated (playerName q)])"
proof -
  have keep: "timers (cleanupWatchBroadcast pid st) = timers st"
    by (simp add: cleanupWatchBroadcast_def split: option.splits)
  have wait: "awaiting (cleanupWatchBroadcast pid st) = awaiting st"
    by (simp add: cleanupWatchBroadcast_def split: option.splits)
  have safe: "cleanupWatchBroadcast pid st = st" if "map_of (remoteBroadcastsRef st) pid = None"
    using that by (rule cleanup_none)
  have closes: "console (cleanupWatchBroadcast pid st) = console st @ [BroadcastClosed pid]
        \<and> remoteBroadcastsRef (cleanupWatchBroadcast pid st) = AList.delete pid (remoteBroadcastsRef st)
        \<and> remoteStatesRef (cleanupWatchBroadcast pid st) = AList.delete pid (remoteStatesRef st)
        \<and> map_of (remoteStatesRef (cleanupWatchBroadcast pid st)) pid = None"
    if "map_of (remoteBroadcastsRef st) pid \<noteq> None"
    by (simp add: cleanup_open [OF that] map_of_delete_self)
  have gone: "map_of (remoteBroadcastsRef (cleanupWatchBroadcast pid st)) pid = None"
    by (simp add: cleanupWatchBroadcast_def map_of_delete_self split: option.splits)
  have others: "map_of (remoteBroadcastsRef (cleanupWatchBroadcast pid st)) k = map_of (remoteBroadcastsRef st) k
        \<and> map_of (remoteStatesRef (cleanupWatchBroadcast pid st)) k = map_of (remoteStatesRef st) k"
    if "k \<noteq> pid" for k
    using cleanup_maps_other [OF that] by simp
  have twice: "cleanupWatchBroadcast pid (cleanupWatchBroadcast pid st) = cleanupWatchBroadcast pid st"
    using gone by (rule cleanup_none)
  have fire: "fireTimer opts outcome (cleanupWatchBroadcast pid st) =
          createWatchBroadcast opts p rc outcome
            ((cleanupWatchBroadcast pid st)
               \<lparr>timers := rest,
                console := console (cleanupWatchBroadcast pid st) @ [LogRetrying (playerName p) rc]\<rparr>)"
    if "timers st = (d, p, rc) # rest"
    using that by (simp add: fireTimer_def keep)
  have stored: "map_of (remoteBroadcastsRef (resumeWatchBroadcast Subscribes (cleanupWatchBroadcast pid st))) pid
          = Some (moqPath q)
        \<and> console (resumeWatchBroadcast Subscribes (cleanupWatchBroadcast pid st)) =
            console (cleanupWatchBroadcast pid st) @ [LogCreated (playerName q)]"
    if h: "awaiting st = (q, n) # ws \<and> participant_id q = pid"
  proof -
    have a: "awaiting (cleanupWatchBroadcast pid st) = (q, n) # ws"
      using h wait by simp
    show ?thesis
      using gone h by (simp add: resumeWatchBroadcast_def a Let_def map_add_def)
  qed
  from keep wait safe closes gone others twice fire stored show ?thesis
    by blast
qed

theorem cleanup_leaves_pending_retry_witness:
  "console (cleanupWatchBroadcast ''p2'' afterJoinOpened) = console afterJoinOpened @ [BroadcastClosed ''p2'']
   \<and> map fst (remoteBroadcastsRef afterJoinOpened) = [''p2'']
   \<and> map fst (remoteStatesRef afterJoinOpened) = [''p2'']
   \<and> remoteBroadcastsRef (cleanupWatchBroadcast ''p2'' afterJoinOpened) = []
   \<and> remoteStatesRef (cleanupWatchBroadcast ''p2'' afterJoinOpened) = []
   \<and> timers (cleanupWatchBroadcast ''p2'' afterJoinFailed) = [(1000, peer2, 1)]
   \<and> cleanupWatchBroadcast ''p2'' afterJoinFailed = afterJoinFailed
   \<and> fireTimer opts1 Succeeds (cleanupWatchBroadcast ''p2'' afterJoinFailed) =
       createWatchBroadcast opts1 peer2 1 Succeeds
         (afterJoinFailed\<lparr>timers := [], console := console afterJoinFailed @ [LogRetrying ''Bob'' 1]\<rparr>)
   \<and> awaiting afterJoinWaiting = [(peer2, 0)]
   \<and> map_of (remoteBroadcastsRef
        (resumeWatchBroadcast Subscribes (cleanupWatchBroadcast ''p2'' afterJoinWaiting))) ''p2''
       = Some ''game/r/p2''"
proof -
  have t: "timers afterJoinFailed = [(1000, peer2, 1)]"
    and m: "map_of (remoteBroadcastsRef afterJoinFailed) ''p2'' = None"
    by (simp_all add: afterJoinFailed_def stream_onMessage_def joinLoop_def leaveLoop_def
      newSet_def updateWith_def createWatchBroadcast_def catchBlock_def
      retryDelay_def opts1_def peer2_def stream0_def ourPath_def Let_def)
  have w: "awaiting afterJoinWaiting = [(peer2, 0)]"
    by (simp add: afterJoinWaiting_def stream_onMessage_def joinLoop_def leaveLoop_def
      newSet_def updateWith_def createWatchBroadcast_def
      opts1_def peer2_def stream0_def ourPath_def Let_def)
  have ob: "remoteBroadcastsRef afterJoinOpened = [(''p2'', ''game/r/p2'')]"
    and os: "remoteStatesRef afterJoinOpened = [(''p2'', sampleB 100)]"
    by (simp_all add: afterJoinOpened_def chatMessage_def resumeWatchBroadcast_def
      afterJoinWaiting_def stream_onMessage_def joinLoop_def leaveLoop_def
      newSet_def updateWith_def createWatchBroadcast_def
      opts1_def peer2_def stream0_def ourPath_def Let_def)
  have n: "playerName peer2 = ''Bob''" and i: "participant_id peer2 = ''p2''"
    and pth: "moqPath peer2 = ''game/r/p2''"
    by (simp_all add: peer2_def)
  note failed = cleanup_leaves_pending_retry
    [of "''p2''" afterJoinFailed 1000 peer2 1 "[]" opts1 Succeeds peer2 0 "[]"]
  note opened = cleanup_leaves_pending_retry
    [of "''p2''" afterJoinOpened 1000 peer2 1 "[]" opts1 Succeeds peer2 0 "[]"]
  note waiting = cleanup_leaves_pending_retry
    [of "''p2''" afterJoinWaiting 1000 peer2 1 "[]" opts1 Succeeds peer2 0 "[]"]
  have c1: "console (cleanupWatchBroadcast ''p2'' afterJoinOpened) =
      console afterJoinOpened @ [BroadcastClosed ''p2'']"
    and c2: "remoteBroadcastsRef (cleanupWatchBroadcast ''p2'' afterJoinOpened) = []"
    and c3: "remoteStatesRef (cleanupWatchBroadcast ''p2'' afterJoinOpened) = []"
    using opened by (simp_all add: ob os AList.delete_eq)
  have same: "cleanupWatchBroadcast ''p2'' afterJoinFailed = afterJoinFailed"
    using failed m by simp
  have fire: "fireTimer opts1 Succeeds (cleanupWatchBroadcast ''p2'' afterJoinFailed) =
       createWatchBroadcast opts1 peer2 1 Succeeds
         ((cleanupWatchBroadcast ''p2'' afterJoinFailed)
            \<lparr>timers := [],
             console := console (cleanupWatchBroadcast ''p2'' afterJoinFailed) @
               [LogRetrying (playerName peer2) 1]\<rparr>)"
    using failed t by simp
  have late: "map_of (remoteBroadcastsRef
        (resumeWatchBroadcast Subscribes (cleanupWatchBroadcast ''p2'' afterJoinWaiting))) ''p2''
       = Some ''game/r/p2''"
    using waiting w i pth by simp
  show ?thesis
    using c1 c2 c3 fire t w late by (simp add: same n ob os)
qed

text \<open>
  The same through the handler of the broker socket: \<open>peer2\<close> is removed while its call is
  in its wait. Nothing is closed, and the broadcast is stored when the wait is over.
\<close>

lemma removal_during_wait_keeps_subscription:
  "console (stream_onMessage opts1 (\<lambda>i. Succeeds) (Some (updateWith [])) afterJoinWaiting) =
     console afterJoinWaiting @ [CallbackLeave ''p2'']
   \<and> remoteBroadcastsRef (resumeWatchBroadcast Subscribes
        (stream_onMessage opts1 (\<lambda>i. Succeeds) (Some (updateWith [])) afterJoinWaiting)) =
       [(''p2'', ''game/r/p2'')]"
  by (simp add: afterJoinWaiting_def stream_onMessage_def joinLoop_def leaveLoop_def
      newSet_def updateWith_def createWatchBroadcast_def resumeWatchBroadcast_def
      cleanupWatchBroadcast_def opts1_def peer2_def stream0_def ourPath_def Let_def)

section \<open>Theorems: the resilient channel\<close>

text \<open>Failures leave the configuration alone, and the delay after \<open>n\<close> of them is known.\<close>

lemma failures_config:
  "delay (failures n c) = delay c \<and> maxDelay (failures n c) = maxDelay c"
  by (induction n) (simp_all add: connectFailure_def startConnecting_def)

lemma failures_backoff:
  assumes "0 \<le> delay c" and "delay c \<le> maxDelay c" and "currentBackoffMs c = delay c"
  shows "currentBackoffMs (failures n c) = min (delay c * 2 ^ n) (maxDelay c)"
proof (induction n)
  case 0
  show ?case using assms by simp
next
  case (Suc n)
  have m: "0 \<le> maxDelay c"
    using assms(1,2) by simp
  have "currentBackoffMs (failures (Suc n) c) =
      min (currentBackoffMs (failures n c) * 2) (maxDelay (failures n c))"
    by (simp add: connectFailure_def startConnecting_def)
  also have "\<dots> = min (min (delay c * 2 ^ n) (maxDelay c) * 2) (maxDelay c)"
    by (simp add: Suc.IH failures_config)
  also have "\<dots> = min (delay c * 2 ^ Suc n) (maxDelay c)"
    using m by (simp add: min_def)
  finally show ?case .
qed

text \<open>
  C8: for a channel whose initial delay is not negative and not above \<open>maxDelay\<close> (the
  defaults are 1000 and 30000 ms), starting from the initial delay, the current backoff
  does not decrease from one consecutive failure to the next, never exceeds \<open>maxDelay\<close>
  (after \<open>n\<close> failures it is the initial delay doubled \<open>n\<close> times, capped), and one
  successful connection resets it to the initial delay.
\<close>

theorem backoff_monotone_capped_reset:
  assumes "0 \<le> delay c" and "delay c \<le> maxDelay c" and "currentBackoffMs c = delay c"
  shows "currentBackoffMs (failures n c) \<le> currentBackoffMs (failures (Suc n) c)
     \<and> currentBackoffMs (failures n c) \<le> maxDelay c
     \<and> currentBackoffMs (failures n c) = min (delay c * 2 ^ n) (maxDelay c)
     \<and> currentBackoffMs (connectSuccess (failures n c)) = delay c"
proof -
  have closed: "currentBackoffMs (failures k c) = min (delay c * 2 ^ k) (maxDelay c)" for k
    by (rule failures_backoff [OF assms])
  have "delay c * 2 ^ n \<le> delay c * 2 ^ Suc n"
    using assms(1) by (simp add: mult_left_mono)
  then have mono: "currentBackoffMs (failures n c) \<le> currentBackoffMs (failures (Suc n) c)"
    unfolding closed by (rule min.mono) simp
  have cap: "currentBackoffMs (failures n c) \<le> maxDelay c"
    unfolding closed by simp
  have reset: "currentBackoffMs (connectSuccess (failures n c)) = delay c"
    by (simp add: connectSuccess_def failures_config)
  from mono cap closed reset show ?thesis
    by simp
qed

theorem backoff_monotone_capped_reset_witness:
  "currentBackoffMs (failures 4 defaultChannel) \<le> currentBackoffMs (failures (Suc 4) defaultChannel)
   \<and> currentBackoffMs (failures 4 defaultChannel) = 16000
   \<and> currentBackoffMs (failures (Suc 4) defaultChannel) = 30000
   \<and> currentBackoffMs (connectSuccess (failures 4 defaultChannel)) = 1000"
proof -
  have h1: "0 \<le> delay defaultChannel" and h2: "delay defaultChannel \<le> maxDelay defaultChannel"
    and h3: "currentBackoffMs defaultChannel = delay defaultChannel"
    by (simp_all add: defaultChannel_def newChannel_def)
  have d: "delay defaultChannel = 1000" and m: "maxDelay defaultChannel = 30000"
    by (simp_all add: defaultChannel_def newChannel_def)
  from backoff_monotone_capped_reset [OF h1 h2 h3, of 4]
    backoff_monotone_capped_reset [OF h1 h2 h3, of "Suc 4"]
  show ?thesis
    unfolding d m by simp
qed

section \<open>Theorems: the presence store and the render\<close>

text \<open>
  C9, as the claim states it, fails for the client's own id. A delta that names the
  client's own id, for which no entry exists, creates no entry: the handler deletes the
  own id from the payload before it merges.
\<close>

theorem delta_for_own_id_creates_no_entry:
  "presenceRef (messageHandler ''me'' (SyncPresence [(''me'', sampleB 100)]) store0) ''me'' = None
   \<and> presenceRef store0 ''me'' = None"
  by (simp add: messageHandler_def mergeAll_def store0_def AList.delete_eq)

text \<open>The merge loop, key by key.\<close>

lemma mergeAll_absent:
  "k \<notin> fst ` set users \<Longrightarrow> mergeAll users m k = m k"
  unfolding mergeAll_def
  by (induction users arbitrary: m) auto

lemma mergeAll_present:
  assumes "distinct (map fst users)" and "map_of users k = Some d"
  shows "mergeAll users m k =
     Some (mergePresence (case m k of None \<Rightarrow> emptyPresence | Some currentP \<Rightarrow> currentP) d)"
  using assms
proof (induction users arbitrary: m)
  case Nil
  then show ?case by simp
next
  case (Cons u users)
  let ?m' = "m(fst u \<mapsto> mergePresence (case m (fst u) of None \<Rightarrow> emptyPresence | Some currentP \<Rightarrow> currentP) (snd u))"
  have step: "mergeAll (u # users) m = mergeAll users ?m'"
    by (simp add: mergeAll_def)
  show ?case
  proof (cases "fst u = k")
    case True
    then have d: "snd u = d"
      using Cons.prems(2) by (cases u) simp
    have "k \<notin> fst ` set users"
      using Cons.prems(1) True by auto
    then have "mergeAll users ?m' k = ?m' k"
      by (rule mergeAll_absent)
    then show ?thesis
      using True d by (simp add: step)
  next
    case False
    then have "map_of users k = Some d"
      using Cons.prems(2) by (cases u) (simp split: if_splits)
    moreover have "distinct (map fst users)"
      using Cons.prems(1) by simp
    ultimately have "mergeAll users ?m' k =
        Some (mergePresence (case ?m' k of None \<Rightarrow> emptyPresence | Some currentP \<Rightarrow> currentP) d)"
      by (rule Cons.IH [rotated])
    then show ?thesis
      using False by (simp add: step)
  qed
qed

lemma spread_absent: "spread old None = old"
  by (simp add: spread_def)

lemma mergePresence_empty: "mergePresence emptyPresence d = d"
  by (simp add: mergePresence_def emptyPresence_def spread_def split: option.splits)

text \<open>
  C9, amended: when the client applies a delta sync that names a participant \<open>P\<close> other
  than the client's own id, the stored presence of \<open>P\<close> becomes the old one overridden by
  the delta's fields, so every field absent from the partial sample keeps its previous
  value; an id with no entry gets an entry that is exactly the delta; the stored presence
  of every participant not named in the delta, and of the client's own id, is unchanged,
  and so is the list of player ids.
\<close>

theorem sync_presence_frame:
  assumes "distinct (map fst users)" and "P \<noteq> selfId" and "map_of users P = Some d"
  shows "presenceRef (messageHandler selfId (SyncPresence users) st) P =
       Some (mergePresence (case presenceRef st P of None \<Rightarrow> emptyPresence | Some currentP \<Rightarrow> currentP) d)
     \<and> (\<forall>currentP. presenceRef st P = Some currentP \<longrightarrow>
          (\<exists>newP. presenceRef (messageHandler selfId (SyncPresence users) st) P = Some newP
            \<and> (name d = None \<longrightarrow> name newP = name currentP)
            \<and> (pos d = None \<longrightarrow> pos newP = pos currentP)
            \<and> (rot d = None \<longrightarrow> rot newP = rot currentP)
            \<and> (wheel d = None \<longrightarrow> wheel newP = wheel currentP)
            \<and> (vel d = None \<longrightarrow> vel newP = vel currentP)
            \<and> (timestamp d = None \<longrightarrow> timestamp newP = timestamp currentP)))
     \<and> (presenceRef st P = None \<longrightarrow>
          presenceRef (messageHandler selfId (SyncPresence users) st) P = Some d)
     \<and> (\<forall>Q. Q = selfId \<or> Q \<notin> fst ` set users \<longrightarrow>
          presenceRef (messageHandler selfId (SyncPresence users) st) Q = presenceRef st Q)
     \<and> playerIds (messageHandler selfId (SyncPresence users) st) = playerIds st"
proof -
  let ?users = "AList.delete selfId users"
  have ref: "presenceRef (messageHandler selfId (SyncPresence users) st) = mergeAll ?users (presenceRef st)"
    by (simp add: messageHandler_def Let_def)
  have dist: "distinct (map fst ?users)"
    using assms(1) by (rule distinct_delete)
  have found: "map_of ?users P = Some d"
    using assms(2,3) by (simp add: delete_conv)
  have new: "presenceRef (messageHandler selfId (SyncPresence users) st) P =
       Some (mergePresence (case presenceRef st P of None \<Rightarrow> emptyPresence | Some currentP \<Rightarrow> currentP) d)"
    unfolding ref by (rule mergeAll_present [OF dist found])
  have fields: "\<exists>newP. presenceRef (messageHandler selfId (SyncPresence users) st) P = Some newP
            \<and> (name d = None \<longrightarrow> name newP = name currentP)
            \<and> (pos d = None \<longrightarrow> pos newP = pos currentP)
            \<and> (rot d = None \<longrightarrow> rot newP = rot currentP)
            \<and> (wheel d = None \<longrightarrow> wheel newP = wheel currentP)
            \<and> (vel d = None \<longrightarrow> vel newP = vel currentP)
            \<and> (timestamp d = None \<longrightarrow> timestamp newP = timestamp currentP)"
    if "presenceRef st P = Some currentP" for currentP
    using new that by (simp add: mergePresence_def spread_absent)
  have fresh: "presenceRef (messageHandler selfId (SyncPresence users) st) P = Some d"
    if "presenceRef st P = None"
    using new that by (simp add: mergePresence_empty)
  have others: "presenceRef (messageHandler selfId (SyncPresence users) st) Q = presenceRef st Q"
    if "Q = selfId \<or> Q \<notin> fst ` set users" for Q
  proof -
    have "Q \<notin> fst ` set ?users"
      using that by (auto simp: AList.delete_eq)
    then show ?thesis
      unfolding ref by (rule mergeAll_absent)
  qed
  have ids: "playerIds (messageHandler selfId (SyncPresence users) st) = playerIds st"
    by (simp add: messageHandler_def Let_def)
  from new fields fresh others ids show ?thesis
    by blast
qed

theorem sync_presence_frame_witness:
  "presenceRef (messageHandler ''me'' (SyncPresence [(''p2'', posOnly)]) store0) ''p2'' = Some posOnly
   \<and> presenceRef (messageHandler ''me'' (SyncPresence [(''p2'', posOnly)]) store0) ''me'' = None
   \<and> presenceRef (messageHandler ''me'' (SyncPresence [(''p2'', posOnly)]) store2) ''p2'' =
       Some ((sampleB 100)\<lparr>pos := Some (Vector3 7 0 0)\<rparr>)"
proof -
  have h1: "distinct (map fst [(''p2'', posOnly)])" and h2: "''p2'' \<noteq> ''me''"
    and h3: "map_of [(''p2'', posOnly)] ''p2'' = Some posOnly"
    by simp_all
  have e: "presenceRef store0 ''p2'' = None" "presenceRef store0 ''me'' = None"
    by (simp_all add: store0_def)
  have f: "presenceRef store2 ''p2'' = Some (sampleB 100)"
    by (simp add: store2_def)
  have g: "mergePresence (sampleB 100) posOnly = (sampleB 100)\<lparr>pos := Some (Vector3 7 0 0)\<rparr>"
    by (simp add: mergePresence_def posOnly_def emptyPresence_def sampleB_def spread_def)
  from sync_presence_frame [OF h1 h2 h3, of store0] sync_presence_frame [OF h1 h2 h3, of store2]
  show ?thesis
    using e f g by (simp add: mergePresence_empty)
qed

text \<open>The elements that the render mounts are a prefix of the ids.\<close>

lemma mounted_Cons:
  "mounted (e # es) = (case e of None \<Rightarrow> [] | Some pid \<Rightarrow> [pid]) @ mounted es"
  by (simp add: mounted_def)

lemma mounted_enumerate:
  "mounted (map (\<lambda>entry. if int (fst entry) < K then Some (snd entry) else None) (enumerate n ids))
     = take (nat (K - int n)) ids"
proof (induction ids arbitrary: n)
  case Nil
  show ?case by (simp add: mounted_def)
next
  case (Cons x xs)
  show ?case
  proof (cases "int n < K")
    case True
    then have "nat (K - int n) = Suc (nat (K - int (Suc n)))"
      by simp
    then show ?thesis
      using True by (simp add: mounted_Cons Cons.IH)
  next
    case False
    then have "nat (K - int n) = 0" and "nat (K - int (Suc n)) = 0"
      by simp_all
    then show ?thesis
      using False by (simp add: mounted_Cons Cons.IH)
  qed
qed

lemma render_nth:
  assumes "i < length ids"
  shows "renderOtherPlayers M ids ! i = (if int i < M - 3 then Some (ids ! i) else None)"
  using assms by (simp add: renderOtherPlayers_def nth_enumerate_eq)

text \<open>
  C10: for every list of remote player ids, the render has one slot per id, the id at
  index \<open>i\<close> is rendered if and only if \<open>i < MAX_VEHICLE_INSTANCES - 3\<close> and the slot is
  \<open>null\<close> otherwise, so the rendered players are the first \<open>MAX_VEHICLE_INSTANCES - 3\<close> ids
  and at most that many; and an added player whose index is beyond the cap has its
  presence stored and its id listed although it is not rendered.
\<close>

theorem render_shows_first_ids_only:
  "length (renderOtherPlayers M ids) = length ids
   \<and> (\<forall>i<length ids.
        ((renderOtherPlayers M ids ! i = Some (ids ! i)) = (int i < M - 3))
        \<and> ((renderOtherPlayers M ids ! i = None) = (\<not> int i < M - 3)))
   \<and> mounted (renderOtherPlayers M ids) = take (nat (M - 3)) ids
   \<and> (3 \<le> M \<longrightarrow> int (length (mounted (renderOtherPlayers M ids))) \<le> M - 3)
   \<and> (pid \<noteq> selfId \<and> pid \<notin> set (playerIds st) \<and> M - 3 \<le> int (length (playerIds st)) \<longrightarrow>
        presenceRef (messageHandler selfId (PlayerAdded pid presence) st) pid = Some presence
        \<and> pid \<in> set (playerIds (messageHandler selfId (PlayerAdded pid presence) st))
        \<and> pid \<notin> set (mounted (renderOtherPlayers M
                (playerIds (messageHandler selfId (PlayerAdded pid presence) st)))))"
proof -
  have len: "length (renderOtherPlayers M ids) = length ids"
    by (simp add: renderOtherPlayers_def)
  have nth: "((renderOtherPlayers M ids ! i = Some (ids ! i)) = (int i < M - 3))
        \<and> ((renderOtherPlayers M ids ! i = None) = (\<not> int i < M - 3))"
    if "i < length ids" for i
    by (simp add: render_nth [OF that])
  have shown: "mounted (renderOtherPlayers M xs) = take (nat (M - 3)) xs" for xs
    using mounted_enumerate [of "M - 3" 0 xs] by (simp add: renderOtherPlayers_def)
  have cap: "int (length (mounted (renderOtherPlayers M ids))) \<le> M - 3" if "3 \<le> M"
    using that by (simp add: shown)
  have hidden: "presenceRef (messageHandler selfId (PlayerAdded pid presence) st) pid = Some presence
        \<and> pid \<in> set (playerIds (messageHandler selfId (PlayerAdded pid presence) st))
        \<and> pid \<notin> set (mounted (renderOtherPlayers M
                (playerIds (messageHandler selfId (PlayerAdded pid presence) st))))"
    if h: "pid \<noteq> selfId \<and> pid \<notin> set (playerIds st) \<and> M - 3 \<le> int (length (playerIds st))"
  proof -
    have ids': "playerIds (messageHandler selfId (PlayerAdded pid presence) st) = playerIds st @ [pid]"
      using h by (simp add: messageHandler_def)
    have ref: "presenceRef (messageHandler selfId (PlayerAdded pid presence) st) pid = Some presence"
      using h by (simp add: messageHandler_def)
    have "nat (M - 3) \<le> length (playerIds st)"
      using h by linarith
    then have "take (nat (M - 3)) (playerIds st @ [pid]) = take (nat (M - 3)) (playerIds st)"
      by simp
    moreover have "pid \<notin> set (take (nat (M - 3)) (playerIds st))"
      using h by (auto dest: in_set_takeD)
    ultimately have "pid \<notin> set (mounted (renderOtherPlayers M (playerIds st @ [pid])))"
      unfolding shown by simp
    then show ?thesis
      using ref by (simp add: ids')
  qed
  from len nth shown cap hidden show ?thesis
    by (intro conjI allI impI) simp_all
qed

theorem render_shows_first_ids_only_witness:
  "renderOtherPlayers 5 [''a'', ''b'', ''c''] ! 1 = Some ''b''
   \<and> renderOtherPlayers 5 [''a'', ''b'', ''c''] ! 2 = None
   \<and> mounted (renderOtherPlayers 5 [''a'', ''b'', ''c'']) = [''a'', ''b'']
   \<and> presenceRef (messageHandler ''me'' (PlayerAdded ''c'' (sampleB 100))
        \<lparr> playerIds = [''a'', ''b''], presenceRef = Map.empty \<rparr>) ''c'' = Some (sampleB 100)"
proof -
  note th = render_shows_first_ids_only [of 5 "[''a'', ''b'', ''c'']" "''c''" "''me''"
      "\<lparr> playerIds = [''a'', ''b''], presenceRef = Map.empty \<rparr>" "sampleB 100"]
  note nth = th [THEN conjunct2, THEN conjunct1, rule_format]
  note shown = th [THEN conjunct2, THEN conjunct2, THEN conjunct1]
  note hidden = th [THEN conjunct2, THEN conjunct2, THEN conjunct2, THEN conjunct2, rule_format]
  have a: "renderOtherPlayers 5 [''a'', ''b'', ''c''] ! 1 = Some ''b''"
    using nth [of 1] by simp
  have b: "renderOtherPlayers 5 [''a'', ''b'', ''c''] ! 2 = None"
    using nth [of 2] by simp
  have c: "mounted (renderOtherPlayers 5 [''a'', ''b'', ''c'']) = [''a'', ''b'']"
    using shown by simp
  have "''c'' \<noteq> ''me'' \<and> ''c'' \<notin> set (playerIds \<lparr> playerIds = [''a'', ''b''], presenceRef = Map.empty \<rparr>)
      \<and> (5::int) - 3 \<le> int (length (playerIds \<lparr> playerIds = [''a'', ''b''], presenceRef = Map.empty \<rparr>))"
    by simp
  from hidden [OF this] have d: "presenceRef (messageHandler ''me'' (PlayerAdded ''c'' (sampleB 100))
        \<lparr> playerIds = [''a'', ''b''], presenceRef = Map.empty \<rparr>) ''c'' = Some (sampleB 100)"
    by (rule conjunct1)
  from a b c d show ?thesis
    by (intro conjI)
qed

end
